theory Spec2Isabelle
  imports Complex_Main "HOL-Library.Log_Nat"
begin

section \<open>JavaScript values\<close>

text \<open>
  The front end is TypeScript. The state of the page and the interfaces it declares are
  modelled at their declared types (interfaces as records, string-literal unions as
  datatypes). What comes out of a decoded response body and is only cast, never checked
  (the entries of the columns of a search result, the values of a metadata record, the
  body of an error response), is an arbitrary JSON value.

  A JavaScript string is a \<open>string\<close>; each \<open>char\<close> stands for one code unit, and code
  units above 0xFF are outside the model.
\<close>

subsection \<open>Numbers\<close>

text \<open>
  A JavaScript number is an IEEE 754 double: a finite value, an infinity or NaN. The
  finite values are carried as reals; the sign of zero is not modelled. Every arithmetic
  operation computes the exact result and rounds it to the nearest double, ties to the
  even significand (\<open>round_double\<close>): 53 significant bits for normal numbers, multiples of
  2 to the power -1074 below the normal range, an infinity from 2 to the power 1024 on.
  A decimal literal of the source denotes the double nearest to it (\<open>lit\<close>).
\<close>

datatype jsnum = Fin real | PosInf | NegInf | NaN

definition pow2 :: "int \<Rightarrow> real" where
  "pow2 k = (if 0 \<le> k then 2 ^ nat k else 1 / 2 ^ nat (- k))"

text \<open>
  For \<open>x > 0\<close>, the exponent \<open>e\<close> with \<open>pow2 e \<le> x < pow2 (e + 1)\<close>, computed from the
  number of bits of an integer.
\<close>

definition exponent2 :: "real \<Rightarrow> int" where
  "exponent2 x = (if 1 \<le> x then bitlen \<lfloor>x\<rfloor> - 1 else - bitlen (\<lceil>1 / x\<rceil> - 1))"

definition round_half_even :: "real \<Rightarrow> int" where
  "round_half_even m =
     (let f = \<lfloor>m\<rfloor>; r = m - of_int f
      in if r < 1 / 2 then f else if 1 / 2 < r then f + 1 else if even f then f else f + 1)"

definition round_double :: "real \<Rightarrow> jsnum" where
  "round_double x =
     (if x = 0 then Fin 0
      else
        (let a = \<bar>x\<bar>;
             q = max (exponent2 a - 52) (- 1074);
             y = of_int (round_half_even (a / pow2 q)) * pow2 q
         in if 2 ^ 1024 \<le> y then (if x < 0 then NegInf else PosInf)
            else Fin (if x < 0 then - y else y)))"

definition lit :: "real \<Rightarrow> jsnum" where
  "lit x = round_double x"

fun js_neg :: "jsnum \<Rightarrow> jsnum" where
  "js_neg (Fin a) = Fin (- a)"
| "js_neg PosInf = NegInf"
| "js_neg NegInf = PosInf"
| "js_neg NaN = NaN"

fun js_add :: "jsnum \<Rightarrow> jsnum \<Rightarrow> jsnum" where
  "js_add NaN _ = NaN"
| "js_add _ NaN = NaN"
| "js_add (Fin a) (Fin b) = round_double (a + b)"
| "js_add PosInf NegInf = NaN"
| "js_add NegInf PosInf = NaN"
| "js_add PosInf _ = PosInf"
| "js_add _ PosInf = PosInf"
| "js_add NegInf _ = NegInf"
| "js_add _ NegInf = NegInf"

definition js_sub :: "jsnum \<Rightarrow> jsnum \<Rightarrow> jsnum" where
  "js_sub a b = js_add a (js_neg b)"

text \<open>The product: an infinity times zero is NaN, otherwise the signs multiply.\<close>

fun js_mul :: "jsnum \<Rightarrow> jsnum \<Rightarrow> jsnum" where
  "js_mul NaN _ = NaN"
| "js_mul _ NaN = NaN"
| "js_mul (Fin a) (Fin b) = round_double (a * b)"
| "js_mul (Fin a) PosInf = (if a = 0 then NaN else if 0 < a then PosInf else NegInf)"
| "js_mul (Fin a) NegInf = (if a = 0 then NaN else if 0 < a then NegInf else PosInf)"
| "js_mul PosInf (Fin b) = (if b = 0 then NaN else if 0 < b then PosInf else NegInf)"
| "js_mul NegInf (Fin b) = (if b = 0 then NaN else if 0 < b then NegInf else PosInf)"
| "js_mul PosInf PosInf = PosInf"
| "js_mul NegInf NegInf = PosInf"
| "js_mul PosInf NegInf = NegInf"
| "js_mul NegInf PosInf = NegInf"

text \<open>The relational operator \<open>a > b\<close>: false whenever an operand is NaN.\<close>

fun js_gt :: "jsnum \<Rightarrow> jsnum \<Rightarrow> bool" where
  "js_gt NaN _ = False"
| "js_gt _ NaN = False"
| "js_gt (Fin a) (Fin b) = (a > b)"
| "js_gt PosInf PosInf = False"
| "js_gt PosInf _ = True"
| "js_gt _ PosInf = False"
| "js_gt NegInf _ = False"
| "js_gt _ NegInf = True"

text \<open>\<open>Math.max\<close> and \<open>Math.min\<close> of two arguments: NaN if either is NaN.\<close>

definition Math_max :: "jsnum \<Rightarrow> jsnum \<Rightarrow> jsnum" where
  "Math_max a b = (if a = NaN \<or> b = NaN then NaN else if js_gt a b then a else b)"

definition Math_min :: "jsnum \<Rightarrow> jsnum \<Rightarrow> jsnum" where
  "Math_min a b = (if a = NaN \<or> b = NaN then NaN else if js_gt a b then b else a)"

text \<open>Truthiness of a number, and \<open>n || 0\<close>.\<close>

definition num_truthy :: "jsnum \<Rightarrow> bool" where
  "num_truthy n = (n \<noteq> NaN \<and> n \<noteq> Fin 0)"

definition or_zero :: "jsnum \<Rightarrow> jsnum" where
  "or_zero n = (if num_truthy n then n else Fin 0)"

subsection \<open>JSON values and conversions\<close>

datatype jsval =
    JNull
  | JBool bool
  | JNum jsnum
  | JStr string
  | JArr "jsval list"
  | JObj "(string \<times> jsval) list"

datatype js_error = Error string | TypeError string | SyntaxError string

text \<open>
  Four operations of the language runtime are not part of the repository and are taken
  as parameters: \<open>JSON.parse\<close> (\<open>None\<close> when it throws a SyntaxError), the conversion of
  a string to a number, the conversion of a number to a string, and \<open>encodeURIComponent\<close>.
\<close>

record js_runtime =
  JSON_parse :: "string \<Rightarrow> jsval option"
  StringToNumber :: "string \<Rightarrow> jsnum"
  NumberToString :: "jsnum \<Rightarrow> string"
  encodeURIComponent :: "string \<Rightarrow> string"

text \<open>Truthiness of a value that may be \<open>undefined\<close> (\<open>None\<close>).\<close>

fun truthy :: "jsval option \<Rightarrow> bool" where
  "truthy None = False"
| "truthy (Some JNull) = False"
| "truthy (Some (JBool b)) = b"
| "truthy (Some (JNum n)) = num_truthy n"
| "truthy (Some (JStr s)) = (s \<noteq> [])"
| "truthy (Some (JArr _)) = True"
| "truthy (Some (JObj _)) = True"

text \<open>\<open>a || b\<close> on possibly undefined values.\<close>

definition js_or :: "jsval option \<Rightarrow> jsval option \<Rightarrow> jsval option" where
  "js_or a b = (if truthy a then a else b)"

text \<open>
  Property access \<open>v.k\<close> for a key \<open>k\<close> that no prototype defines (the keys the source
  reads are \<open>page_range\<close>, \<open>chunk_bboxes\<close>, \<open>document\<close>, \<open>sourceDocument\<close>, \<open>detail\<close>,
  \<open>message\<close> and \<open>error\<close>): an object gives the value stored under the key, any other
  value gives \<open>undefined\<close>.
\<close>

definition field :: "jsval \<Rightarrow> string \<Rightarrow> jsval option" where
  "field v k = (case v of JObj kvs \<Rightarrow> map_of kvs k | _ \<Rightarrow> None)"

fun join_comma :: "string list \<Rightarrow> string" where
  "join_comma [] = []"
| "join_comma [s] = s"
| "join_comma (s # t # ss) = s @ '','' @ join_comma (t # ss)"

text \<open>
  \<open>String(v)\<close>; \<open>None\<close> when the conversion throws a TypeError. An array prints its
  elements joined by commas, a null element as the empty string. A decoded object prints
  as \<open>[object Object]\<close>, unless it has a key \<open>toString\<close> of its own: the value stored there
  is not callable, \<open>valueOf\<close> returns the object itself, and the conversion to a primitive
  value throws.
\<close>

fun to_string :: "js_runtime \<Rightarrow> jsval \<Rightarrow> string option" where
  "to_string rt JNull = Some ''null''"
| "to_string rt (JBool b) = Some (if b then ''true'' else ''false'')"
| "to_string rt (JNum n) = Some (NumberToString rt n)"
| "to_string rt (JStr s) = Some s"
| "to_string rt (JArr xs) =
     map_option join_comma
       (those (map (\<lambda>x. if x = JNull then Some [] else to_string rt x) xs))"
| "to_string rt (JObj kvs) =
     (if map_of kvs ''toString'' \<noteq> None then None else Some ''[object Object]'')"

text \<open>
  \<open>Number(v)\<close>; \<open>None\<close> when the conversion throws a TypeError. Arrays and objects are
  converted through their string form.
\<close>

fun to_number :: "js_runtime \<Rightarrow> jsval \<Rightarrow> jsnum option" where
  "to_number rt JNull = Some (Fin 0)"
| "to_number rt (JBool b) = Some (if b then Fin 1 else Fin 0)"
| "to_number rt (JNum n) = Some n"
| "to_number rt (JStr s) = Some (StringToNumber rt s)"
| "to_number rt (JArr xs) = map_option (StringToNumber rt) (to_string rt (JArr xs))"
| "to_number rt (JObj kvs) = map_option (StringToNumber rt) (to_string rt (JObj kvs))"

text \<open>\<open>Number(v)\<close> where \<open>v\<close> may be \<open>undefined\<close>: \<open>Number(undefined)\<close> is NaN.\<close>

definition Number :: "js_runtime \<Rightarrow> jsval option \<Rightarrow> jsnum option" where
  "Number rt v = (case v of None \<Rightarrow> Some NaN | Some x \<Rightarrow> to_number rt x)"

definition not_primitive :: js_error where
  "not_primitive = TypeError ''Cannot convert object to primitive value''"

text \<open>\<open>xs[i]\<close>: \<open>undefined\<close> out of range.\<close>

definition at_index :: "'a list \<Rightarrow> nat \<Rightarrow> 'a option" where
  "at_index xs i = (if i < length xs then Some (xs ! i) else None)"

text \<open>\<open>s.replace(/'/g, '"')\<close>: every single quote becomes a double quote.\<close>

definition replace_quotes :: "string \<Rightarrow> string" where
  "replace_quotes s = map (\<lambda>c. if c = CHR 0x27 then CHR 0x22 else c) s"

text \<open>Decimal digits of an array index, for the template literal \<open>rec-${i}\<close>.\<close>

fun show_nat :: "nat \<Rightarrow> string" where
  "show_nat n =
     (if n < 10 then [char_of (48 + n)]
      else show_nat (n div 10) @ [char_of (48 + n mod 10)])"


section \<open>The API client (\<open>lib/api-client.ts\<close>)\<close>

datatype connection_type = correlation | contradiction | elaboration | context_conn

text \<open>
  Interface \<open>BackendRecommendation\<close>. The field \<open>id\<close> is \<open>rec_id\<close> here, and the union member
  \<open>'context'\<close> is \<open>context_conn\<close>. The normalizer stores in \<open>id\<close> whatever truthy value the
  \<open>ids\<close> column holds (the cast \<open>as string\<close> checks nothing), so \<open>rec_id\<close> is a JSON value.
\<close>

record BackendRecommendation =
  rec_id :: jsval
  sourceDocument :: string
  snippet :: string
  pageNumber :: jsnum
  boundingBox :: "jsnum \<times> jsnum \<times> jsnum \<times> jsnum"
  relevanceScore :: jsnum
  connectionType :: connection_type

text \<open>
  Type \<open>ChromaResults\<close>: four optional columns, each a list of result batches. The entries
  of a batch are cast to strings, records and numbers without a check, so each is a JSON
  value.
\<close>

record ChromaResults =
  documents :: "jsval list list option"
  metadatas :: "jsval list list option"
  ids :: "jsval list list option"
  distances :: "jsval list list option"

text \<open>
  The decoded response body \<open>raw\<close> of \<open>/extract_and_search/\<close>, read at the three places the
  source reads it: \<open>raw?.recommendations\<close> when it is an array (\<open>None\<close> otherwise),
  \<open>raw?.search_results\<close> when it is neither null nor undefined, and \<open>raw\<close> itself cast to
  \<open>ChromaResults\<close>. A body that is \<open>null\<close> is \<open>None\<close>.
\<close>

record raw_response = ChromaResults +
  recommendations_field :: "BackendRecommendation list option"
  search_results :: "ChromaResults option"

text \<open>
  The outcome of \<open>fetch\<close>: it rejects, or it resolves to a response with its \<open>ok\<close> flag, its
  \<open>statusText\<close> and what \<open>response.json()\<close> gives (\<open>Inl\<close> when that rejects).
\<close>

datatype 'b fetch_outcome =
    FetchRejected js_error
  | Response (ok: bool) (statusText: string) (json: "js_error + 'b")

text \<open>
  A \<open>try\<close> block whose body can return a value, fall through to the code after the
  \<open>try\<close> statement, or throw.
\<close>

datatype 'a completion = Returns 'a | FallsThrough | Throws js_error

definition is_nonempty_array :: "jsval option \<Rightarrow> bool" where
  "is_nonempty_array v = (case v of Some (JArr xs) \<Rightarrow> xs \<noteq> [] | _ \<Rightarrow> False)"

definition first_element :: "jsval option \<Rightarrow> jsval option" where
  "first_element v = (case v of Some (JArr xs) \<Rightarrow> at_index xs 0 | _ \<Rightarrow> None)"

text \<open>\<open>return Number(v) || 0\<close> inside a \<open>try\<close> block.\<close>

definition return_number_or_zero :: "js_runtime \<Rightarrow> jsval option \<Rightarrow> jsnum completion" where
  "return_number_or_zero rt v =
     (case Number rt v of None \<Rightarrow> Throws not_primitive | Some n \<Rightarrow> Returns (or_zero n))"

text \<open>The body of the \<open>try\<close> block of \<open>parsePageStart\<close>.\<close>

definition parsePageStart_try :: "js_runtime \<Rightarrow> jsval option \<Rightarrow> jsnum completion" where
  "parsePageStart_try rt pageRange =
     (case (case pageRange of
              Some (JStr s) \<Rightarrow>
                (case JSON_parse rt (replace_quotes s) of
                   None \<Rightarrow> Throws (SyntaxError ''JSON.parse'')
                 | Some parsed \<Rightarrow>
                     if is_nonempty_array (Some parsed)
                     then return_number_or_zero rt (first_element (Some parsed))
                     else FallsThrough)
            | _ \<Rightarrow> FallsThrough) of
        FallsThrough \<Rightarrow>
          if is_nonempty_array pageRange
          then return_number_or_zero rt (first_element pageRange)
          else FallsThrough
      | done \<Rightarrow> done)"

text \<open>\<open>parsePageStart\<close>: the empty \<open>catch\<close> swallows the exception; then \<open>return 0\<close>.\<close>

definition parsePageStart :: "js_runtime \<Rightarrow> jsval option \<Rightarrow> jsnum" where
  "parsePageStart rt pageRange =
     (case parsePageStart_try rt pageRange of
        Returns n \<Rightarrow> n
      | FallsThrough \<Rightarrow> Fin 0
      | Throws _ \<Rightarrow> Fin 0)"

definition zero_bbox :: "jsnum \<times> jsnum \<times> jsnum \<times> jsnum" where
  "zero_bbox = (Fin 0, Fin 0, Fin 0, Fin 0)"

text \<open>
  The body of the \<open>try\<close> block of \<open>parseFirstBBox\<close>. The four entries of the quartet are
  converted from left to right; the first conversion that throws ends the block.
\<close>

definition parseFirstBBox_try ::
  "js_runtime \<Rightarrow> jsval option \<Rightarrow> (jsnum \<times> jsnum \<times> jsnum \<times> jsnum) completion" where
  "parseFirstBBox_try rt bboxes =
     (case (case bboxes of
              Some (JStr s) \<Rightarrow>
                (case JSON_parse rt (replace_quotes s) of
                   None \<Rightarrow> Inl (SyntaxError ''JSON.parse'')
                 | Some p \<Rightarrow> Inr (Some p))
            | _ \<Rightarrow> Inr bboxes) of
        Inl e \<Rightarrow> Throws e
      | Inr parsed \<Rightarrow>
          if is_nonempty_array parsed then
            (case first_element parsed of
               Some (JArr nums) \<Rightarrow>
                 if length nums = 4
                 then (case those (map (\<lambda>k. Number rt (at_index nums k)) [0, 1, 2, 3]) of
                         Some [a, b, c, d] \<Rightarrow> Returns (or_zero a, or_zero b, or_zero c, or_zero d)
                       | _ \<Rightarrow> Throws not_primitive)
                 else FallsThrough
             | _ \<Rightarrow> FallsThrough)
          else FallsThrough)"

definition parseFirstBBox ::
  "js_runtime \<Rightarrow> jsval option \<Rightarrow> jsnum \<times> jsnum \<times> jsnum \<times> jsnum" where
  "parseFirstBBox rt bboxes =
     (case parseFirstBBox_try rt bboxes of
        Returns bb \<Rightarrow> bb
      | FallsThrough \<Rightarrow> zero_bbox
      | Throws _ \<Rightarrow> zero_bbox)"

text \<open>
  The pieces of the callback of \<open>documents.slice(0, 3).map((snippet, i) => ...)\<close>, with the
  columns \<open>metadatas\<close>, \<open>ids\<close> and \<open>distances\<close> it closes over.

  \<open>metadatas[i] || {}\<close>.
\<close>

definition meta_at :: "jsval list \<Rightarrow> nat \<Rightarrow> jsval" where
  "meta_at metas i =
     (case at_index metas i of Some m \<Rightarrow> if truthy (Some m) then m else JObj [] | None \<Rightarrow> JObj [])"

text \<open>
  \<open>typeof relevance === 'number' ? 1 - Math.min(Math.max(relevance, 0), 1) : 0.8 - (i * 0.1)\<close>.
\<close>

definition relevance_of :: "jsval list \<Rightarrow> nat \<Rightarrow> jsnum" where
  "relevance_of dists i =
     (case at_index dists i of
        Some (JNum relevance) \<Rightarrow>
          js_sub (Fin 1) (Math_min (Math_max relevance (Fin 0)) (Fin 1))
      | _ \<Rightarrow> js_sub (lit 0.8) (js_mul (Fin (real i)) (lit 0.1)))"

definition connection_of :: "jsnum \<Rightarrow> connection_type" where
  "connection_of score =
     (if js_gt score (lit 0.8) then elaboration
      else if js_gt score (lit 0.6) then correlation
      else context_conn)"

text \<open>\<open>(ids?.[i] as string) || `rec-${i}`\<close>.\<close>

definition id_of :: "jsval list \<Rightarrow> nat \<Rightarrow> jsval" where
  "id_of idcol i =
     (case js_or (at_index idcol i) (Some (JStr (''rec-'' @ show_nat i))) of
        Some v \<Rightarrow> v
      | None \<Rightarrow> JStr (''rec-'' @ show_nat i))"

text \<open>
  \<open>String(meta?.document || meta?.sourceDocument || 'Unknown Document')\<close>. It is
  evaluated outside any \<open>try\<close> block: a value that does not convert throws out of the
  callback.
\<close>

definition source_document_of :: "js_runtime \<Rightarrow> jsval \<Rightarrow> js_error + string" where
  "source_document_of rt meta =
     (case js_or (js_or (field meta ''document'') (field meta ''sourceDocument''))
                 (Some (JStr ''Unknown Document'')) of
        Some v \<Rightarrow> (case to_string rt v of Some s \<Rightarrow> Inr s | None \<Rightarrow> Inl not_primitive)
      | None \<Rightarrow> Inr ''undefined'')"

text \<open>
  \<open>snippet.length > 200\<close>. Reading \<open>length\<close> of \<open>null\<close> throws; a string and an array have
  a length; a number and a boolean have none, and \<open>undefined > 200\<close> is false; an object
  has the value stored under the key \<open>length\<close>, compared as a number.
\<close>

definition length_exceeds_200 :: "js_runtime \<Rightarrow> jsval \<Rightarrow> js_error + bool" where
  "length_exceeds_200 rt snip =
     (case snip of
        JNull \<Rightarrow> Inl (TypeError ''Cannot read properties of null (reading length)'')
      | JStr s \<Rightarrow> Inr (length s > 200)
      | JArr xs \<Rightarrow> Inr (length xs > 200)
      | JObj kvs \<Rightarrow>
          (case map_of kvs ''length'' of
             None \<Rightarrow> Inr False
           | Some v \<Rightarrow>
               (case to_number rt v of
                  None \<Rightarrow> Inl not_primitive
                | Some n \<Rightarrow> Inr (js_gt n (Fin 200))))
      | _ \<Rightarrow> Inr False)"

text \<open>
  \<open>String(snippet || '').substring(0, 200) + (snippet.length > 200 ? '...' : '')\<close>, the
  left operand first. It is evaluated outside any \<open>try\<close> block.
\<close>

definition snippet_text :: "js_runtime \<Rightarrow> jsval \<Rightarrow> js_error + string" where
  "snippet_text rt snip =
     (case (if truthy (Some snip) then to_string rt snip else Some []) of
        None \<Rightarrow> Inl not_primitive
      | Some s \<Rightarrow>
          (case length_exceeds_200 rt snip of
             Inl e \<Rightarrow> Inl e
           | Inr longer \<Rightarrow> Inr (take 200 s @ (if longer then ''...'' else []))))"

text \<open>
  One call of the callback. The fields of the returned object are evaluated in the order
  they are written: \<open>sourceDocument\<close> before \<open>snippet\<close>.
\<close>

definition to_recommendation ::
  "js_runtime \<Rightarrow> jsval list \<Rightarrow> jsval list \<Rightarrow> jsval list \<Rightarrow> jsval \<Rightarrow> nat \<Rightarrow>
     js_error + BackendRecommendation" where
  "to_recommendation rt metas idcol dists snip i =
     (let meta = meta_at metas i;
          pageStartZeroIndexed = parsePageStart rt (field meta ''page_range'');
          page = js_add pageStartZeroIndexed (Fin 1);
          bbox = parseFirstBBox rt (field meta ''chunk_bboxes'');
          score = relevance_of dists i
      in case source_document_of rt meta of
           Inl e \<Rightarrow> Inl e
         | Inr source \<Rightarrow>
             (case snippet_text rt snip of
                Inl e \<Rightarrow> Inl e
              | Inr shown \<Rightarrow>
                  Inr \<lparr> rec_id = id_of idcol i,
                        sourceDocument = source,
                        snippet = shown,
                        pageNumber = page,
                        boundingBox = bbox,
                        relevanceScore = score,
                        connectionType = connection_of score \<rparr>))"

text \<open>\<open>Array.prototype.map\<close> with a callback that may throw: the first throw ends it.\<close>

fun collect :: "(js_error + 'a) list \<Rightarrow> js_error + 'a list" where
  "collect [] = Inr []"
| "collect (x # xs) =
     (case x of
        Inl e \<Rightarrow> Inl e
      | Inr v \<Rightarrow> (case collect xs of Inl e \<Rightarrow> Inl e | Inr vs \<Rightarrow> Inr (v # vs)))"

text \<open>\<open>Array.isArray(col?.[0]) ? col[0] : []\<close> for an optional column.\<close>

definition first_batch :: "'a list list option \<Rightarrow> 'a list" where
  "first_batch col =
     (case col of
        None \<Rightarrow> []
      | Some batches \<Rightarrow> (case at_index batches 0 of Some b \<Rightarrow> b | None \<Rightarrow> []))"

text \<open>\<open>raw?.recommendations\<close> when it is an array, and \<open>raw?.search_results ?? raw\<close>.\<close>

definition raw_recommendations :: "raw_response option \<Rightarrow> BackendRecommendation list option" where
  "raw_recommendations raw = (case raw of None \<Rightarrow> None | Some r \<Rightarrow> recommendations_field r)"

definition search_bundle :: "raw_response option \<Rightarrow> ChromaResults option" where
  "search_bundle raw =
     (case (case raw of None \<Rightarrow> None | Some r \<Rightarrow> search_results r) of
        Some sr \<Rightarrow> Some sr
      | None \<Rightarrow> map_option ChromaResults.truncate raw)"

text \<open>
  The part of \<open>extractAndSearch\<close> after \<open>const raw = await response.json()\<close>: the
  Recommendation Normalizer. It returns the list, or throws what a callback threw.
\<close>

definition normalize_raw ::
  "js_runtime \<Rightarrow> raw_response option \<Rightarrow> js_error + BackendRecommendation list" where
  "normalize_raw rt raw =
     (case raw_recommendations raw of
        Some recs \<Rightarrow> Inr recs
      | None \<Rightarrow>
          (let searchResults = search_bundle raw;
               docs = first_batch (Option.bind searchResults documents);
               metas = first_batch (Option.bind searchResults metadatas);
               idcol = first_batch (Option.bind searchResults ids);
               dists = first_batch (Option.bind searchResults distances)
           in collect (map (\<lambda>(snip, i). to_recommendation rt metas idcol dists snip i)
                           (zip (take 3 docs) [0 ..< length (take 3 docs)]))))"

text \<open>
  \<open>extractAndSearch\<close>, given what \<open>fetch\<close> does. The outer \<open>catch\<close> logs and rethrows, so
  every error passes through unchanged.
\<close>

definition extractAndSearch ::
  "js_runtime \<Rightarrow> raw_response option fetch_outcome \<Rightarrow> js_error + BackendRecommendation list" where
  "extractAndSearch rt outcome =
     (case outcome of
        FetchRejected e \<Rightarrow> Inl e
      | Response is_ok status body \<Rightarrow>
          if \<not> is_ok then Inl (Error (''Extract and search failed: '' @ status))
          else (case body of
                  Inl e \<Rightarrow> Inl e
                | Inr raw \<Rightarrow> normalize_raw rt raw))"

text \<open>
  The \<open>try\<close> block of \<open>getInsights\<close> for a response that is not ok: it reads the body,
  picks \<open>detail\<close>, \<open>message\<close> or \<open>error\<close> (the status text if none is truthy) and throws an
  error carrying it; the template literal converts the value picked to a string.
\<close>

definition getInsights_try :: "js_runtime \<Rightarrow> string \<Rightarrow> js_error + jsval \<Rightarrow> unit completion" where
  "getInsights_try rt status body =
     (case body of
        Inl e \<Rightarrow> Throws e
      | Inr err \<Rightarrow>
          (let picked = js_or (js_or (field err ''detail'') (field err ''message''))
                              (field err ''error'');
               detail = (if truthy (Some err) \<and> truthy picked
                         then (case picked of Some v \<Rightarrow> to_string rt v | None \<Rightarrow> Some ''undefined'')
                         else Some status)
           in case detail of
                None \<Rightarrow> Throws not_primitive
              | Some d \<Rightarrow> Throws (Error (''Insights failed: '' @ d))))"

text \<open>
  \<open>getInsights\<close>. The \<open>catch\<close> clause of the inner \<open>try\<close> binds no variable and throws a new
  error built from the status text; the outer \<open>catch\<close> logs and rethrows.
\<close>

definition getInsights :: "js_runtime \<Rightarrow> jsval fetch_outcome \<Rightarrow> js_error + jsval" where
  "getInsights rt outcome =
     (case outcome of
        FetchRejected e \<Rightarrow> Inl e
      | Response is_ok status body \<Rightarrow>
          (case (if \<not> is_ok
                 then (case getInsights_try rt status body of
                         Throws _ \<Rightarrow> Throws (Error (''Insights failed: '' @ status))
                       | done \<Rightarrow> done)
                 else FallsThrough) of
             Throws e \<Rightarrow> Inl e
           | _ \<Rightarrow> (case body of Inl e \<Rightarrow> Inl e | Inr v \<Rightarrow> Inr v)))"

text \<open>The client object and \<open>getPdfUrl\<close>.\<close>

record ApiClient =
  baseUrl :: string

text \<open>
  \<open>API_BASE_URL\<close> is the environment variable \<open>NEXT_PUBLIC_BACKEND_API_URL\<close> when it is set
  and not empty; the constructor stores it.
\<close>

definition API_BASE_URL :: "string option \<Rightarrow> string" where
  "API_BASE_URL env_url =
     (case env_url of
        Some u \<Rightarrow> if u \<noteq> [] then u else ''http://localhost:8000''
      | None \<Rightarrow> ''http://localhost:8000'')"

definition apiClient :: "string option \<Rightarrow> ApiClient" where
  "apiClient env_url = \<lparr> baseUrl = API_BASE_URL env_url \<rparr>"

definition getPdfUrl :: "js_runtime \<Rightarrow> ApiClient \<Rightarrow> string \<Rightarrow> string" where
  "getPdfUrl rt client filename = baseUrl client @ ''/get_pdf/'' @ encodeURIComponent rt filename"


section \<open>The page (\<open>app/(main)/page.tsx\<close>)\<close>

text \<open>
  The viewer's capability object is opaque to the page: a handle. A \<open>File\<close> is known by
  its name.
\<close>

type_synonym ViewerAPIs = nat

datatype File = File (file_name: string)

record DocumentFile =
  df_id :: "string option"
  df_url :: "string option"
  df_name :: string
  df_file :: "File option"

record Document =
  doc_id :: string
  doc_name :: string
  doc_uploadedAt :: string

datatype annotation_type = HIGHLIGHT

record Annotation =
  ann_pageNumber :: jsnum
  ann_type :: annotation_type
  ann_boundingBox :: "jsnum \<times> jsnum \<times> jsnum \<times> jsnum"
  color :: string
  opacity :: jsnum

record BackendInsightResponse =
  insight :: string

datatype view = upload | library | viewer

text \<open>The component's state: its \<open>useState\<close> cells and the \<open>selectionTimerRef\<close> ref.\<close>

record page_state =
  document :: "DocumentFile option"
  viewerApis :: "ViewerAPIs option"
  recommendations :: "BackendRecommendation list"
  isLoading :: bool
  error :: "string option"
  annotations :: "Annotation list"
  insights :: "BackendInsightResponse option"
  isInsightsLoading :: bool
  currentView :: view
  selectedDocument :: "Document option"
  selectionTimerRef :: "nat option"

text \<open>
  What surrounds the component. The page runs on one thread: an event handler, a timeout
  callback or the continuation of an \<open>await\<close> runs to its end before the next one starts,
  so each is one step on the state. The handlers in use are those of the latest render.

  A pending timeout has an id, the time it is due (on a clock of milliseconds) and the
  callback's closure: the selected text and the \<open>viewerApis\<close> value that
  \<open>processSelectionWithScreenshot\<close> captured when the callback was created. A call of
  \<open>processSelectionWithScreenshot\<close> that is suspended at an \<open>await\<close> is a run; runs are
  numbered in the order they started. \<open>requests\<close> logs the texts sent to
  \<open>/extract_and_search/\<close>, \<open>viewer_calls\<close> the calls made on the viewer.
\<close>

datatype run = AwaitScreenshot string | AwaitSearch string | Finished

datatype viewer_call = goToLocation ViewerAPIs jsnum

record system = page_state +
  now :: nat
  timers :: "(nat \<times> nat \<times> string \<times> ViewerAPIs option) list"
  next_timer_id :: nat
  runs :: "run list"
  requests :: "string list"
  viewer_calls :: "viewer_call list"

definition initial :: system where
  "initial = \<lparr> document = None, viewerApis = None, recommendations = [], isLoading = False,
       error = None, annotations = [], insights = None, isInsightsLoading = False,
       currentView = upload, selectedDocument = None, selectionTimerRef = None,
       now = 0, timers = [], next_timer_id = 1, runs = [], requests = [],
       viewer_calls = [] \<rparr>"

text \<open>\<open>window.setTimeout\<close> returns a fresh positive id; \<open>window.clearTimeout\<close> drops the timer.\<close>

definition setTimeout :: "system \<Rightarrow> nat \<Rightarrow> string \<times> ViewerAPIs option \<Rightarrow> nat \<times> system" where
  "setTimeout s delay closure =
     (next_timer_id s,
      s\<lparr> timers := timers s @ [(next_timer_id s, now s + delay, closure)],
         next_timer_id := next_timer_id s + 1 \<rparr>)"

definition clearTimeout :: "system \<Rightarrow> nat \<Rightarrow> system" where
  "clearTimeout s tid = s\<lparr> timers := filter (\<lambda>t. fst t \<noteq> tid) (timers s) \<rparr>"

text \<open>\<open>String.prototype.trim\<close> on the code units of the model.\<close>

definition is_space :: "char \<Rightarrow> bool" where
  "is_space c = (c \<in> set [CHR 0x09, CHR 0x0A, CHR 0x0B, CHR 0x0C, CHR 0x0D, CHR 0x20, CHR 0xA0])"

definition trim :: "string \<Rightarrow> string" where
  "trim s = rev (dropWhile is_space (rev (dropWhile is_space s)))"

text \<open>
  \<open>window.document.getElementById('adobe-pdf-viewer')\<close> finds the element that \<open>PdfViewer\<close>
  renders; the page renders \<open>PdfViewer\<close> in the viewer view when a document is set.
\<close>

definition viewer_element_present :: "system \<Rightarrow> bool" where
  "viewer_element_present s = (currentView s = viewer \<and> document s \<noteq> None)"

definition failure_message :: string where
  "failure_message = ''Failed to process selection. Try again.''"

text \<open>
  \<open>processSelectionWithScreenshot\<close> up to its first \<open>await\<close>. \<open>apis\<close> is the \<open>viewerApis\<close> value
  of the closure. A missing viewer element throws inside the \<open>try\<close>: \<open>catch\<close> sets the error,
  \<open>finally\<close> clears the loading flag. Otherwise the run is suspended on the screenshot.
\<close>

definition processSelectionWithScreenshot :: "system \<Rightarrow> ViewerAPIs option \<Rightarrow> string \<Rightarrow> system" where
  "processSelectionWithScreenshot s apis text =
     (if apis = None then s
      else if text = [] \<or> trim text = [] then s
      else
        (let s1 = s\<lparr> isLoading := True, error := None, insights := None \<rparr>
         in if \<not> viewer_element_present s1
            then s1\<lparr> error := Some failure_message, isLoading := False \<rparr>
            else s1\<lparr> runs := runs s1 @ [AwaitScreenshot (trim text)] \<rparr>))"

text \<open>
  The promise of \<open>captureTextSelectionScreenshot\<close> settles for run \<open>i\<close>. Resolved: the run
  calls \<open>apiClient.extractAndSearch\<close>, which sends the request, and is suspended on it.
  Rejected: \<open>catch\<close> and \<open>finally\<close>.
\<close>

definition screenshot_settled :: "system \<Rightarrow> nat \<Rightarrow> bool \<Rightarrow> system" where
  "screenshot_settled s i resolved =
     (case at_index (runs s) i of
        Some (AwaitScreenshot text) \<Rightarrow>
          if resolved
          then s\<lparr> requests := requests s @ [text], runs := (runs s)[i := AwaitSearch text] \<rparr>
          else s\<lparr> error := Some failure_message, isLoading := False,
                  runs := (runs s)[i := Finished] \<rparr>
      | _ \<Rightarrow> s)"

text \<open>
  The promise of \<open>apiClient.extractAndSearch\<close> settles for run \<open>i\<close>, given what \<open>fetch\<close> did.
  Resolved: \<open>setRecommendations(result.recommendations || [])\<close>, then \<open>finally\<close>.
  Rejected: \<open>catch\<close> and \<open>finally\<close>.
\<close>

definition search_settled ::
  "js_runtime \<Rightarrow> system \<Rightarrow> nat \<Rightarrow> raw_response option fetch_outcome \<Rightarrow> system" where
  "search_settled rt s i outcome =
     (case at_index (runs s) i of
        Some (AwaitSearch text) \<Rightarrow>
          (case extractAndSearch rt outcome of
             Inr recs \<Rightarrow>
               s\<lparr> recommendations := recs, isLoading := False,
                  runs := (runs s)[i := Finished] \<rparr>
           | Inl e \<Rightarrow>
               s\<lparr> error := Some failure_message, isLoading := False,
                  runs := (runs s)[i := Finished] \<rparr>)
      | _ \<Rightarrow> s)"

text \<open>\<open>handleTextSelect\<close>. The timeout's callback closes over the current \<open>viewerApis\<close>.\<close>

definition handleTextSelect :: "system \<Rightarrow> string \<Rightarrow> system" where
  "handleTextSelect s selectedText =
     (let s1 = s\<lparr> annotations := [] \<rparr>;
          s2 = (case selectionTimerRef s1 of
                  Some tid \<Rightarrow> if tid \<noteq> 0 then clearTimeout s1 tid else s1
                | None \<Rightarrow> s1);
          (tid, s3) = setTimeout s2 600 (selectedText, viewerApis s)
      in s3\<lparr> selectionTimerRef := Some tid \<rparr>)"

text \<open>
  Time passes: the clock advances and every timeout that has become due runs its
  callback, in the order the timeouts were set.
\<close>

definition elapse :: "system \<Rightarrow> nat \<Rightarrow> system" where
  "elapse s d =
     (let s1 = s\<lparr> now := now s + d \<rparr>;
          due = filter (\<lambda>t. fst (snd t) \<le> now s1) (timers s1);
          s2 = s1\<lparr> timers := filter (\<lambda>t. \<not> fst (snd t) \<le> now s1) (timers s1) \<rparr>
      in foldl (\<lambda>st (tid, due_at, text, apis). processSelectionWithScreenshot st apis text)
               s2 due)"

definition handleViewerReady :: "system \<Rightarrow> ViewerAPIs \<Rightarrow> system" where
  "handleViewerReady s apis = s\<lparr> viewerApis := Some apis \<rparr>"

text \<open>The \<open>newAnnotation\<close> that \<open>handleJumpToPage\<close> builds for a recommendation.\<close>

definition newAnnotation :: "BackendRecommendation \<Rightarrow> Annotation" where
  "newAnnotation recommendation =
     \<lparr> ann_pageNumber = pageNumber recommendation,
       ann_type = HIGHLIGHT,
       ann_boundingBox = boundingBox recommendation,
       color = ''#FBBF24'', opacity = lit 0.4 \<rparr>"

definition handleJumpToPage :: "system \<Rightarrow> BackendRecommendation \<Rightarrow> system" where
  "handleJumpToPage s recommendation =
     (case viewerApis s of
        Some apis \<Rightarrow>
          s\<lparr> viewer_calls := viewer_calls s @ [goToLocation apis (pageNumber recommendation)],
             annotations := [newAnnotation recommendation] \<rparr>
      | None \<Rightarrow> s)"

definition handleUploadComplete :: "system \<Rightarrow> string list \<Rightarrow> system" where
  "handleUploadComplete s uploadedFiles = s\<lparr> currentView := library \<rparr>"

definition handleDocumentSelect :: "js_runtime \<Rightarrow> ApiClient \<Rightarrow> system \<Rightarrow> Document \<Rightarrow> system" where
  "handleDocumentSelect rt client s doc =
     s\<lparr> selectedDocument := Some doc,
        document := Some \<lparr> df_id = Some (doc_id doc),
                           df_url = Some (getPdfUrl rt client (doc_name doc)),
                           df_name = doc_name doc, df_file = None \<rparr>,
        currentView := viewer,
        viewerApis := None,
        recommendations := [],
        annotations := [],
        insights := None,
        error := None \<rparr>"

definition handleBackToLibrary :: "system \<Rightarrow> system" where
  "handleBackToLibrary s = s\<lparr> currentView := library, document := None, selectedDocument := None \<rparr>"

definition handleBackToUpload :: "system \<Rightarrow> system" where
  "handleBackToUpload s = s\<lparr> currentView := upload, document := None, selectedDocument := None \<rparr>"

definition handleOpenSinglePdf :: "system \<Rightarrow> File \<Rightarrow> system" where
  "handleOpenSinglePdf s file =
     s\<lparr> document := Some \<lparr> df_id = None, df_url = None, df_name = file_name file,
                           df_file = Some file \<rparr>,
        currentView := viewer,
        viewerApis := None,
        recommendations := [],
        annotations := [],
        insights := None,
        error := None \<rparr>"

text \<open>
  The \<open>onClick\<close> of the header's Library button, written inline in the JSX:
  \<open>() => setCurrentView('library')\<close>.
\<close>

definition library_button_click :: "system \<Rightarrow> system" where
  "library_button_click s = s\<lparr> currentView := library \<rparr>"

text \<open>
  The events the page reacts to, and one step of the page. \<open>handleFetchInsights\<close> and
  \<open>handleUseSelection\<close> are not modelled; they write \<open>isLoading\<close>, \<open>isInsightsLoading\<close>,
  \<open>error\<close>, \<open>insights\<close> and \<open>recommendations\<close> only.
\<close>

datatype event =
    ViewerReady ViewerAPIs
  | TextSelect string
  | Elapse nat
  | ScreenshotSettled nat bool
  | SearchSettled nat "raw_response option fetch_outcome"
  | JumpToPage BackendRecommendation
  | UploadComplete "string list"
  | DocumentSelect Document
  | BackToLibrary
  | BackToUpload
  | LibraryButton
  | OpenSinglePdf File

fun step :: "js_runtime \<Rightarrow> ApiClient \<Rightarrow> system \<Rightarrow> event \<Rightarrow> system" where
  "step rt client s (ViewerReady apis) = handleViewerReady s apis"
| "step rt client s (TextSelect text) = handleTextSelect s text"
| "step rt client s (Elapse d) = elapse s d"
| "step rt client s (ScreenshotSettled i resolved) = screenshot_settled s i resolved"
| "step rt client s (SearchSettled i outcome) = search_settled rt s i outcome"
| "step rt client s (JumpToPage r) = handleJumpToPage s r"
| "step rt client s (UploadComplete files) = handleUploadComplete s files"
| "step rt client s (DocumentSelect doc) = handleDocumentSelect rt client s doc"
| "step rt client s BackToLibrary = handleBackToLibrary s"
| "step rt client s BackToUpload = handleBackToUpload s"
| "step rt client s LibraryButton = library_button_click s"
| "step rt client s (OpenSinglePdf file) = handleOpenSinglePdf s file"

definition run_events :: "js_runtime \<Rightarrow> ApiClient \<Rightarrow> system \<Rightarrow> event list \<Rightarrow> system" where
  "run_events rt client s evs = foldl (step rt client) s evs"

section \<open>Notions used in the properties\<close>

text \<open>A number lies in the closed interval from 0 to 1.\<close>

definition in_unit_interval :: "jsnum \<Rightarrow> bool" where
  "in_unit_interval n = (case n of Fin x \<Rightarrow> 0 \<le> x \<and> x \<le> 1 | _ \<Rightarrow> False)"


definition denoted :: "js_runtime \<Rightarrow> jsval option \<Rightarrow> jsval option" where
  "denoted rt v = (case v of Some (JStr s) \<Rightarrow> JSON_parse rt (replace_quotes s) | _ \<Rightarrow> v)"



text \<open>
  The two expressions of a record that are evaluated outside the \<open>try\<close> blocks (the source
  document and the snippet) convert without throwing, for each of the documents \<open>docs\<close>
  with its metadata.
\<close>

definition others_convert :: "js_runtime \<Rightarrow> jsval list \<Rightarrow> jsval list \<Rightarrow> bool" where
  "others_convert rt metas docs =
     list_all (\<lambda>(snip, j). \<not> isl (source_document_of rt (meta_at metas j))
                           \<and> \<not> isl (snippet_text rt snip))
              (zip docs [0 ..< length docs])"

text \<open>
  Every pending timeout is the one \<open>selectionTimerRef\<close> holds, and timer ids are positive.
\<close>

definition timers_tracked :: "system \<Rightarrow> bool" where
  "timers_tracked s =
     (next_timer_id s \<noteq> 0 \<and>
      (\<forall>t \<in> set (timers s). selectionTimerRef s = Some (fst t) \<and> fst t \<noteq> 0))"

text \<open>
  A burst of selection events: a first text, then pairs of the time since the previous
  event and the next text. \<open>last_text\<close> is the text of the last event of the burst.
\<close>

fun burst_events :: "string \<Rightarrow> (nat \<times> string) list \<Rightarrow> event list" where
  "burst_events t [] = [TextSelect t]"
| "burst_events t ((gap, t') # rest) = TextSelect t # Elapse gap # burst_events t' rest"

definition last_text :: "string \<Rightarrow> (nat \<times> string) list \<Rightarrow> string" where
  "last_text t rest = (if rest = [] then t else snd (last rest))"

text \<open>
  What the call of \<open>processSelectionWithScreenshot\<close> needs to start a run: the viewer
  handle of the closure, a text that is not blank, and the viewer element.
\<close>

definition run_starts :: "system \<Rightarrow> string \<Rightarrow> bool" where
  "run_starts s sel = (viewerApis s \<noteq> None \<and> trim sel \<noteq> [] \<and> viewer_element_present s)"

subsection \<open>Example inputs\<close>

text \<open>
  A runtime for the examples: its \<open>JSON.parse\<close> knows the two strings the examples parse
  and rejects every other string. The examples call none of its other three operations.
\<close>

definition sample_runtime :: js_runtime where
  "sample_runtime =
     \<lparr> JSON_parse =
         (\<lambda>s. if s = ''[2]'' then Some (JArr [JNum (Fin 2)])
              else if s = ''[[1, 2, 3]]''
              then Some (JArr [JArr [JNum (Fin 1), JNum (Fin 2), JNum (Fin 3)]])
              else None),
       StringToNumber = (\<lambda>s. NaN),
       NumberToString = (\<lambda>n. ''NaN''),
       encodeURIComponent = (\<lambda>s. s) \<rparr>"

text \<open>A recommendation on a given page, with a given box and score.\<close>

definition sample_rec ::
  "string \<Rightarrow> jsnum \<Rightarrow> jsnum \<times> jsnum \<times> jsnum \<times> jsnum \<Rightarrow> jsnum \<Rightarrow> BackendRecommendation" where
  "sample_rec name page box score =
     \<lparr> rec_id = JStr name, sourceDocument = ''other.pdf'', snippet = ''related passage'',
       pageNumber = page, boundingBox = box, relevanceScore = score,
       connectionType = context_conn \<rparr>"

definition rec_A :: BackendRecommendation where
  "rec_A = sample_rec ''A'' (Fin 2) (Fin 1, Fin 2, Fin 3, Fin 4) (Fin 0.75)"

definition rec_B :: BackendRecommendation where
  "rec_B = sample_rec ''B'' (Fin 5) (Fin 10, Fin 20, Fin 30, Fin 40) (Fin 0.5)"

text \<open>The body \<open>{"recommendations": recs}\<close>.\<close>

definition recommendations_body :: "BackendRecommendation list \<Rightarrow> raw_response option" where
  "recommendations_body recs =
     Some \<lparr> documents = None, metadatas = None, ids = None, distances = None,
            recommendations_field = Some recs, search_results = None \<rparr>"

text \<open>The body \<open>{"documents": [docs], "metadatas": [metas], "distances": [dists]}\<close>.\<close>

definition bundle_body :: "jsval list \<Rightarrow> jsval list \<Rightarrow> jsval list \<Rightarrow> raw_response option" where
  "bundle_body docs metas dists =
     Some \<lparr> documents = Some [docs], metadatas = Some [metas], ids = None,
            distances = Some [dists], recommendations_field = None, search_results = None \<rparr>"

text \<open>A body that carries four recommendations, the first with a score above 1.\<close>

definition oversized_body :: "raw_response option" where
  "oversized_body =
     recommendations_body
       [sample_rec ''r1'' (Fin 1) zero_bbox (Fin 1.5), sample_rec ''r2'' (Fin 1) zero_bbox (Fin 0.5),
        sample_rec ''r3'' (Fin 1) zero_bbox (Fin 0.5), sample_rec ''r4'' (Fin 1) zero_bbox (Fin 0.5)]"

text \<open>
  A bundle of four documents with two distances outside the interval from 0 to 1; a
  bundle whose only record has a page range that is not JSON and a bounding box of three
  numbers; and the same bundle with \<open>null\<close> for the snippet.
\<close>

definition four_documents_body :: "raw_response option" where
  "four_documents_body =
     bundle_body [JStr ''d1'', JStr ''d2'', JStr ''d3'', JStr ''d4''] []
       [JNum (Fin 2.5), JNum (Fin (- 1))]"




text \<open>An error body \<open>{"detail": "Model unavailable"}\<close>.\<close>

definition detail_body :: jsval where
  "detail_body = JObj [(''detail'', JStr ''Model unavailable'')]"

text \<open>
  A local file is opened, the viewer becomes ready, and two selections are processed one
  after the other; both screenshots resolve, and the search of the second selection
  (run 1) resolves while the search of the first (run 0) is still in flight.
\<close>

definition overtaking_events :: "event list" where
  "overtaking_events =
     [OpenSinglePdf (File ''a.pdf''), ViewerReady 7,
      TextSelect ''first'', Elapse 600, TextSelect ''second'', Elapse 600,
      ScreenshotSettled 0 True, ScreenshotSettled 1 True,
      SearchSettled 1 (Response True ''OK'' (Inr (recommendations_body [rec_B])))]"

definition overtaken :: system where
  "overtaken = run_events sample_runtime (apiClient None) initial overtaking_events"

text \<open>A local file is open and the viewer is ready.\<close>

definition ready_history :: "event list" where
  "ready_history = [OpenSinglePdf (File ''a.pdf''), ViewerReady 7]"

definition ready :: system where
  "ready = run_events sample_runtime (apiClient None) initial ready_history"

text \<open>Two more selection events, 100 ms and 250 ms after the one before.\<close>

definition sample_burst :: "(nat \<times> string) list" where
  "sample_burst = [(100, ''The quick''), (250, ''The quick fox'')]"

text \<open>A burst whose last event carries a space and a tab.\<close>

definition blank_burst :: "(nat \<times> string) list" where
  "blank_burst = [(100, [CHR 0x20, CHR 0x09])]"

text \<open>One selection has been processed and its run waits for the screenshot.\<close>

definition awaiting_screenshot :: system where
  "awaiting_screenshot =
     run_events sample_runtime (apiClient None) ready [TextSelect ''first'', Elapse 600]"

text \<open>A response that is not ok, and the response to the first selection's search.\<close>

definition bad_gateway :: "raw_response option fetch_outcome" where
  "bad_gateway = Response False ''Bad Gateway'' (Inl (SyntaxError ''Unexpected token''))"

definition first_result :: "raw_response option fetch_outcome" where
  "first_result = Response True ''OK'' (Inr (recommendations_body [rec_A]))"

section \<open>Properties of the number model\<close>

subsection \<open>Powers of two and rounding\<close>

lemma pow2_pos: "0 < pow2 k"
  by (simp add: pow2_def)

lemma pow2_nonpos: "k \<le> 0 \<Longrightarrow> pow2 k = 1 / 2 ^ nat (- k)"
  by (auto simp: pow2_def)

lemma pow2_eq_powr: "pow2 k = 2 powr (real_of_int k)"
  by (auto simp: pow2_def powr_realpow[symmetric] powr_minus divide_simps)

lemma pow2_mono: "a \<le> b \<Longrightarrow> pow2 a \<le> pow2 b"
  by (simp add: pow2_eq_powr)

lemma pow2_add: "pow2 (a + b) = pow2 a * pow2 b"
  by (simp add: pow2_eq_powr powr_add)

lemma round_half_even_nonneg: "0 \<le> m \<Longrightarrow> 0 \<le> round_half_even m"
  by (auto simp: round_half_even_def Let_def)

lemma round_half_even_le: "m \<le> of_int K \<Longrightarrow> round_half_even m \<le> K"
  unfolding round_half_even_def Let_def
  by (auto simp: le_floor_iff) (linarith+)?

lemma round_half_even_ge: "of_int K \<le> m \<Longrightarrow> K \<le> round_half_even m"
  unfolding round_half_even_def Let_def
  by (auto simp: le_floor_iff) (linarith+)?

lemma exponent2_bounds:
  assumes "0 < x"
  shows "pow2 (exponent2 x) \<le> x \<and> x < pow2 (exponent2 x + 1)"
proof (cases "1 \<le> x")
  case True
  define n where "n = \<lfloor>x\<rfloor>"
  have n: "0 < n" using True by (simp add: n_def)
  have b: "2 ^ nat (bitlen n - 1) \<le> n" "n < 2 ^ nat (bitlen n)"
    using bitlen_bounds [OF n] by auto
  have k: "1 \<le> bitlen n" using n by (simp add: bitlen_alt_def)
  have e: "exponent2 x = bitlen n - 1" using True by (simp add: exponent2_def n_def)
  have "(2::real) ^ nat (bitlen n - 1) \<le> real_of_int n"
    using b(1) by (metis of_int_le_iff of_int_numeral of_int_power)
  moreover have "real_of_int n \<le> x" by (simp add: n_def)
  ultimately have "(2::real) ^ nat (bitlen n - 1) \<le> x" by linarith
  then have lo: "pow2 (bitlen n - 1) \<le> x" using k by (simp add: pow2_def)
  have "n + 1 \<le> 2 ^ nat (bitlen n)" using b(2) by simp
  then have "real_of_int (n + 1) \<le> (2::real) ^ nat (bitlen n)"
    by (metis of_int_le_iff of_int_numeral of_int_power)
  moreover have "x < real_of_int (n + 1)" by (simp add: n_def)
  ultimately have "x < (2::real) ^ nat (bitlen n)" by linarith
  then have hi: "x < pow2 (bitlen n)" using k by (simp add: pow2_def)
  show ?thesis using lo hi by (simp add: e)
next
  case False
  define n where "n = \<lceil>1 / x\<rceil>"
  define k where "k = bitlen (n - 1)"
  have x1: "x < 1" using False by simp
  have inv: "1 < 1 / x" using assms x1 by simp
  have n2: "2 \<le> n" using inv by (simp add: n_def le_ceiling_iff)
  then have n: "0 < n - 1" by simp
  have b: "2 ^ nat (k - 1) \<le> n - 1" "n - 1 < 2 ^ nat k"
    using bitlen_bounds [OF n] by (auto simp: k_def)
  have k1: "1 \<le> k" using n by (simp add: k_def bitlen_alt_def)
  have e: "exponent2 x = - k" using False by (simp add: exponent2_def n_def k_def)
  have up: "1 / x \<le> real_of_int n" by (simp add: n_def)
  have "n \<le> 2 ^ nat k" using b(2) by simp
  then have "real_of_int n \<le> 2 ^ nat k" by (metis of_int_le_iff of_int_numeral of_int_power)
  then have "1 / x \<le> 2 ^ nat k" using up by linarith
  then have lo: "1 / 2 ^ nat k \<le> x" using assms by (simp add: field_simps)
  have "real_of_int (n - 1) < 1 / x" by (simp add: n_def) linarith
  moreover have "(2::real) ^ nat (k - 1) \<le> real_of_int (n - 1)"
    using b(1) by (metis of_int_le_iff of_int_numeral of_int_power)
  ultimately have "2 ^ nat (k - 1) < 1 / x" by linarith
  then have hi: "x < 1 / 2 ^ nat (k - 1)" using assms by (simp add: field_simps)
  have p1: "pow2 (- k) = 1 / 2 ^ nat k" using k1 by (simp add: pow2_def)
  have p2: "pow2 (- k + 1) = 1 / 2 ^ nat (k - 1)"
  proof (cases "k = 1")
    case True then show ?thesis by (simp add: pow2_def)
  next
    case False
    then have "- k + 1 < 0" using k1 by simp
    moreover have "nat (- (- k + 1)) = nat (k - 1)" by simp
    ultimately show ?thesis by (simp add: pow2_def)
  qed
  have "- k + 1 = 1 - k" by simp
  then have p3: "pow2 (1 - k) = 1 / 2 ^ nat (k - 1)" using p2 by metis
  show ?thesis using lo hi by (simp add: e p1 p3)
qed

lemma exponent2_unique:
  assumes "pow2 e \<le> x" "x < pow2 (e + 1)"
  shows "exponent2 x = e"
proof -
  have x: "0 < x" using assms(1) pow2_pos [of e] by linarith
  note b = exponent2_bounds [OF x]
  have "\<not> exponent2 x < e"
  proof
    assume "exponent2 x < e"
    then have "pow2 (exponent2 x + 1) \<le> pow2 e" by (intro pow2_mono) simp
    then show False using b assms(1) by linarith
  qed
  moreover have "\<not> e < exponent2 x"
  proof
    assume "e < exponent2 x"
    then have "pow2 (e + 1) \<le> pow2 (exponent2 x)" by (intro pow2_mono) simp
    then show False using b assms(2) by linarith
  qed
  ultimately show ?thesis by linarith
qed

lemma round_double_normal:
  assumes "pow2 e \<le> x" "x < pow2 (e + 1)" "- 1022 \<le> e" "e \<le> 1022"
  shows "round_double x = Fin (of_int (round_half_even (x / pow2 (e - 52))) * pow2 (e - 52))"
proof -
  have x: "0 < x" using assms(1) pow2_pos [of e] by linarith
  have ex: "exponent2 x = e" using assms(1,2) by (rule exponent2_unique)
  have q: "max (e - 52) (- 1074) = e - 52" using assms(3) by simp
  have "x / pow2 (e - 52) \<le> pow2 (e + 1) / pow2 (e - 52)"
    using assms(2) pow2_pos [of "e - 52"] by (simp add: divide_right_mono)
  also have "pow2 (e + 1) = pow2 (e - 52) * pow2 53"
  proof -
    have "e - 52 + 53 = e + 1" by simp
    then show ?thesis using pow2_add [of "e - 52" 53] by metis
  qed
  also have "pow2 (e - 52) * pow2 53 / pow2 (e - 52) = of_int (2 ^ 53)"
    using pow2_pos [of "e - 52"] by (simp add: pow2_def)
  finally have "round_half_even (x / pow2 (e - 52)) \<le> 2 ^ 53" by (rule round_half_even_le)
  then have "real_of_int (round_half_even (x / pow2 (e - 52))) \<le> pow2 53"
    by (simp add: pow2_def)
  then have "of_int (round_half_even (x / pow2 (e - 52))) * pow2 (e - 52) \<le> pow2 53 * pow2 (e - 52)"
    using pow2_pos [of "e - 52"] by (simp add: mult_right_mono)
  also have "\<dots> = pow2 (e + 1)"
  proof -
    have "53 + (e - 52) = e + 1" by simp
    then show ?thesis using pow2_add [of 53 "e - 52"] by metis
  qed
  also have "\<dots> \<le> pow2 1023" using assms(4) by (intro pow2_mono) simp
  also have "\<dots> < 2 ^ 1024" by (simp add: pow2_def)
  finally have "\<not> 2 ^ 1024 \<le> of_int (round_half_even (x / pow2 (e - 52))) * pow2 (e - 52)"
    by simp
  then show ?thesis using x by (simp add: round_double_def Let_def ex q)
qed

lemma round_double_unit:
  assumes "0 \<le> y" "y \<le> 1"
  shows "\<exists>z. round_double y = Fin z \<and> 0 \<le> z \<and> z \<le> 1"
proof (cases "y = 0")
  case True
  then show ?thesis by (simp add: round_double_def)
next
  case False
  then have y: "0 < y" using assms(1) by simp
  define q where "q = max (exponent2 y - 52) (- 1074)"
  have "exponent2 y \<le> 0"
  proof (cases "1 \<le> y")
    case True
    then have "y = 1" using assms(2) by simp
    then show ?thesis by (simp add: exponent2_def bitlen_alt_def)
  next
    case False
    then show ?thesis by (simp add: exponent2_def bitlen_nonneg)
  qed
  then have q: "q \<le> 0" by (simp add: q_def)
  define z where "z = of_int (round_half_even (y / pow2 q)) * pow2 q"
  have p: "pow2 q = 1 / 2 ^ nat (- q)" using q by (rule pow2_nonpos)
  have "y / pow2 q \<le> of_int (2 ^ nat (- q))"
    using assms(2) by (simp add: p)
  then have "round_half_even (y / pow2 q) \<le> 2 ^ nat (- q)" by (rule round_half_even_le)
  then have "real_of_int (round_half_even (y / pow2 q)) \<le> 2 ^ nat (- q)"
    by (metis of_int_le_iff of_int_numeral of_int_power)
  then have z1: "z \<le> 1" by (simp add: z_def p field_simps)
  have "0 \<le> y / pow2 q" using y pow2_pos [of q] by simp
  then have "0 \<le> round_half_even (y / pow2 q)" by (rule round_half_even_nonneg)
  then have z0: "0 \<le> z" using pow2_pos [of q] by (simp add: z_def)
  have "\<not> (2::real) ^ 1024 \<le> z"
  proof -
    have "(1::real) < 2 ^ 1024" by simp
    then show ?thesis using z1 by linarith
  qed
  then have "round_double y = Fin z"
    using y by (simp add: round_double_def Let_def q_def [symmetric] z_def [symmetric])
  then show ?thesis using z0 z1 by blast
qed

subsection \<open>The doubles of the literals\<close>

lemma round_double_0: "round_double 0 = Fin 0"
  by (simp add: round_double_def)

lemma round_double_1: "round_double 1 = Fin 1"
  using round_double_normal [of 0 1] by (simp add: pow2_def round_half_even_def)

lemma round_double_3: "round_double 3 = Fin 3"
  using round_double_normal [of 1 3] by (simp add: pow2_def round_half_even_def)

lemma lit_0_1: "lit 0.1 = Fin (3602879701896397 / 36028797018963968)"
  using round_double_normal [of "- 4" "0.1"]
  by (simp add: lit_def pow2_def round_half_even_def)

lemma lit_0_8: "lit 0.8 = Fin (3602879701896397 / 4503599627370496)"
  using round_double_normal [of "- 1" "0.8"]
  by (simp add: lit_def pow2_def round_half_even_def)

lemma lit_0_6: "lit 0.6 = Fin (5404319552844595 / 9007199254740992)"
  using round_double_normal [of "- 1" "0.6"]
  by (simp add: lit_def pow2_def round_half_even_def)

lemma lit_0_9: "lit 0.9 = Fin (8106479329266893 / 9007199254740992)"
  using round_double_normal [of "- 1" "0.9"]
  by (simp add: lit_def pow2_def round_half_even_def)

lemma one_minus_tenth: "js_sub (Fin 1) (lit 0.1) = lit 0.9"
  unfolding js_sub_def lit_0_1 lit_0_9
  using round_double_normal [of "- 1" "1 - 3602879701896397 / 36028797018963968"]
  by (simp add: pow2_def round_half_even_def)

lemma placeholder_0:
  "js_sub (lit 0.8) (js_mul (Fin (real 0)) (lit 0.1)) = Fin (3602879701896397 / 4503599627370496)"
  unfolding js_sub_def lit_0_1 lit_0_8
  using round_double_normal [of "- 1" "3602879701896397 / 4503599627370496"]
  by (simp add: round_double_0 pow2_def round_half_even_def)

lemma placeholder_1:
  "js_sub (lit 0.8) (js_mul (Fin (real 1)) (lit 0.1)) = Fin (6305039478318695 / 9007199254740992)"
  unfolding js_sub_def lit_0_1 lit_0_8
  using round_double_normal [of "- 4" "3602879701896397 / 36028797018963968"]
    round_double_normal [of "- 1" "3602879701896397 / 4503599627370496 - 3602879701896397 / 36028797018963968"]
  by (simp add: pow2_def round_half_even_def)

lemma placeholder_2:
  "js_sub (lit 0.8) (js_mul (Fin (real 2)) (lit 0.1)) = Fin (1351079888211149 / 2251799813685248)"
  unfolding js_sub_def lit_0_1 lit_0_8
  using round_double_normal [of "- 3" "2 * (3602879701896397 / 36028797018963968)"]
    round_double_normal [of "- 1" "3602879701896397 / 4503599627370496 - 2 * (3602879701896397 / 36028797018963968)"]
  by (simp add: pow2_def round_half_even_def)

section \<open>Properties of the API client\<close>

subsection \<open>The normalizer's bounds\<close>

lemma clamp_unit:
  assumes "d \<noteq> NaN"
  shows "in_unit_interval (js_sub (Fin 1) (Math_min (Math_max d (Fin 0)) (Fin 1)))"
proof -
  have "\<exists>c. Math_min (Math_max d (Fin 0)) (Fin 1) = Fin c \<and> 0 \<le> c \<and> c \<le> 1"
    using assms by (cases d) (auto simp: Math_min_def Math_max_def)
  then obtain c where c: "Math_min (Math_max d (Fin 0)) (Fin 1) = Fin c" "0 \<le> c" "c \<le> 1"
    by blast
  obtain z where "round_double (1 - c) = Fin z" "0 \<le> z" "z \<le> 1"
    using round_double_unit [of "1 - c"] c(2,3) by auto
  then show ?thesis by (simp add: c(1) js_sub_def in_unit_interval_def)
qed

lemma placeholder_unit:
  assumes "i < 3"
  shows "in_unit_interval (js_sub (lit 0.8) (js_mul (Fin (real i)) (lit 0.1)))"
proof -
  consider "i = 0" | "i = 1" | "i = 2" using assms by linarith
  then show ?thesis
  proof cases
    case 1
    have "js_sub (lit 0.8) (js_mul (Fin (real i)) (lit 0.1))
        = Fin (3602879701896397 / 4503599627370496)"
      by (simp only: 1 placeholder_0)
    then show ?thesis by (simp add: in_unit_interval_def)
  next
    case 2
    have "js_sub (lit 0.8) (js_mul (Fin (real i)) (lit 0.1))
        = Fin (6305039478318695 / 9007199254740992)"
      by (simp only: 2 placeholder_1)
    then show ?thesis by (simp add: in_unit_interval_def)
  next
    case 3
    have "js_sub (lit 0.8) (js_mul (Fin (real i)) (lit 0.1))
        = Fin (1351079888211149 / 2251799813685248)"
      by (simp only: 3 placeholder_2)
    then show ?thesis by (simp add: in_unit_interval_def)
  qed
qed

lemma relevance_range:
  assumes "JNum NaN \<notin> set dists" and "i < 3"
  shows "in_unit_interval (relevance_of dists i)"
proof (cases "at_index dists i")
  case None
  then show ?thesis using placeholder_unit [OF assms(2)] by (simp add: relevance_of_def)
next
  case (Some v)
  then have mem: "v \<in> set dists" by (auto simp: at_index_def split: if_splits)
  show ?thesis
  proof (cases v)
    case (JNum d)
    then have "d \<noteq> NaN" using mem assms(1) by auto
    then show ?thesis using Some JNum by (simp add: relevance_of_def clamp_unit)
  qed (use Some placeholder_unit [OF assms(2)] in \<open>simp_all add: relevance_of_def\<close>)
qed

lemma collect_Inr:
  "collect xs = Inr vs \<Longrightarrow> length vs = length xs \<and> (\<forall>j < length xs. xs ! j = Inr (vs ! j))"
proof (induction xs arbitrary: vs)
  case Nil
  then show ?case by simp
next
  case (Cons x xs)
  then obtain v ws where x: "x = Inr v" and ws: "collect xs = Inr ws" and vs: "vs = v # ws"
    by (auto split: sum.splits)
  have "length ws = length xs \<and> (\<forall>j < length xs. xs ! j = Inr (ws ! j))"
    using Cons.IH [OF ws] .
  then show ?case using x vs by (auto simp: nth_Cons split: nat.splits)
qed

lemma collect_all_Inr:
  "list_all (\<lambda>x. \<not> isl x) xs \<Longrightarrow> collect xs = Inr (map projr xs)"
  by (induction xs) (auto split: sum.splits)

lemma to_recommendation_Inr:
  assumes "to_recommendation rt metas idcol dists snip i = Inr r"
  shows "relevanceScore r = relevance_of dists i"
    and "connectionType r = connection_of (relevance_of dists i)"
    and "pageNumber r = js_add (parsePageStart rt (field (meta_at metas i) ''page_range'')) (Fin 1)"
    and "boundingBox r = parseFirstBBox rt (field (meta_at metas i) ''chunk_bboxes'')"
    and "snippet_text rt snip = Inr (snippet r)"
  using assms by (auto simp: to_recommendation_def Let_def split: sum.splits)

lemma to_recommendation_converts:
  assumes "\<not> isl (source_document_of rt (meta_at metas i))" "\<not> isl (snippet_text rt snip)"
  shows "\<not> isl (to_recommendation rt metas idcol dists snip i)"
  using assms by (auto simp: to_recommendation_def Let_def split: sum.splits)

lemma normalize_raw_fallback:
  "raw_recommendations raw = None \<Longrightarrow>
   normalize_raw rt raw =
     collect (map (\<lambda>(snip, i). to_recommendation rt
             (first_batch (Option.bind (search_bundle raw) metadatas))
             (first_batch (Option.bind (search_bundle raw) ids))
             (first_batch (Option.bind (search_bundle raw) distances)) snip i)
         (zip (take 3 (first_batch (Option.bind (search_bundle raw) documents)))
              [0 ..< length (take 3 (first_batch (Option.bind (search_bundle raw) documents)))]))"
  by (simp add: normalize_raw_def Let_def)

lemma normalize_raw_passthrough:
  "raw_recommendations raw = Some recs \<Longrightarrow> normalize_raw rt raw = Inr recs"
  by (simp add: normalize_raw_def)

lemma normalize_raw_Inr:
  assumes "raw_recommendations raw = None" and "normalize_raw rt raw = Inr recs"
  shows "length recs = min 3 (length (first_batch (Option.bind (search_bundle raw) documents)))"
    and "i < length recs \<Longrightarrow>
         to_recommendation rt
           (first_batch (Option.bind (search_bundle raw) metadatas))
           (first_batch (Option.bind (search_bundle raw) ids))
           (first_batch (Option.bind (search_bundle raw) distances))
           (first_batch (Option.bind (search_bundle raw) documents) ! i) i = Inr (recs ! i)"
proof -
  let ?docs = "first_batch (Option.bind (search_bundle raw) documents)"
  let ?f = "\<lambda>(snip, i). to_recommendation rt
             (first_batch (Option.bind (search_bundle raw) metadatas))
             (first_batch (Option.bind (search_bundle raw) ids))
             (first_batch (Option.bind (search_bundle raw) distances)) snip i"
  let ?xs = "map ?f (zip (take 3 ?docs) [0 ..< length (take 3 ?docs)])"
  have "collect ?xs = Inr recs"
    using assms by (simp add: normalize_raw_fallback)
  from collect_Inr [OF this]
  have len: "length recs = length ?xs" and nth: "\<forall>j < length ?xs. ?xs ! j = Inr (recs ! j)"
    by auto
  show l: "length recs = min 3 (length ?docs)" using len by (simp add: min.commute)
  show "to_recommendation rt
           (first_batch (Option.bind (search_bundle raw) metadatas))
           (first_batch (Option.bind (search_bundle raw) ids))
           (first_batch (Option.bind (search_bundle raw) distances))
           (?docs ! i) i = Inr (recs ! i)" if "i < length recs"
  proof -
    have i: "i < length ?xs" using that len by simp
    then have "?xs ! i = Inr (recs ! i)" using nth by blast
    moreover have "?xs ! i = ?f (take 3 ?docs ! i, i)" using i by simp
    moreover have "take 3 ?docs ! i = ?docs ! i" using i by simp
    ultimately show ?thesis by simp
  qed
qed

lemma normalize_raw_converts:
  assumes "raw_recommendations raw = None"
    and "others_convert rt (first_batch (Option.bind (search_bundle raw) metadatas))
           (take 3 (first_batch (Option.bind (search_bundle raw) documents)))"
  shows "\<not> isl (normalize_raw rt raw)"
proof -
  let ?docs = "take 3 (first_batch (Option.bind (search_bundle raw) documents))"
  let ?f = "\<lambda>(snip, i). to_recommendation rt
             (first_batch (Option.bind (search_bundle raw) metadatas))
             (first_batch (Option.bind (search_bundle raw) ids))
             (first_batch (Option.bind (search_bundle raw) distances)) snip i"
  have "list_all (\<lambda>x. \<not> isl x) (map ?f (zip ?docs [0 ..< length ?docs]))"
    using assms(2)
    by (auto simp: others_convert_def list_all_iff to_recommendation_converts)
  then have "collect (map ?f (zip ?docs [0 ..< length ?docs]))
      = Inr (map projr (map ?f (zip ?docs [0 ..< length ?docs])))"
    by (rule collect_all_Inr)
  then show ?thesis using assms(1) by (simp add: normalize_raw_fallback)
qed

lemma fallback_scores_in_range:
  assumes "raw_recommendations raw = None"
    and "JNum NaN \<notin> set (first_batch (Option.bind (search_bundle raw) distances))"
    and "normalize_raw rt raw = Inr recs"
  shows "\<forall>r \<in> set recs. in_unit_interval (relevanceScore r)"
proof
  fix r
  assume "r \<in> set recs"
  then obtain i where i: "i < length recs" "r = recs ! i"
    by (auto simp: in_set_conv_nth)
  have "i < 3" using i(1) normalize_raw_Inr(1) [OF assms(1,3)] by simp
  moreover have "relevanceScore r
      = relevance_of (first_batch (Option.bind (search_bundle raw) distances)) i"
    using to_recommendation_Inr(1) [OF normalize_raw_Inr(2) [OF assms(1,3) i(1)]] i(2) by simp
  ultimately show "in_unit_interval (relevanceScore r)"
    using assms(2) by (simp add: relevance_range)
qed

text \<open>
  Claim C2 as stated (at most three entries, every score between 0 and 1, also when the
  payload carries a recommendations array) fails: a body with four recommendations, the
  first with the score 1.5, is returned as it is.
\<close>

theorem passthrough_unbounded_counterexample:
  "\<not> isl (normalize_raw sample_runtime oversized_body) \<and>
   \<not> length (projr (normalize_raw sample_runtime oversized_body)) \<le> 3 \<and>
   \<not> in_unit_interval (relevanceScore (projr (normalize_raw sample_runtime oversized_body) ! 0))"
  by (simp add: oversized_body_def recommendations_body_def normalize_raw_def
      raw_recommendations_def sample_rec_def in_unit_interval_def)

text \<open>
  Claim C2, amended: for a payload without a recommendations array in which no distance
  is NaN (a decoded JSON number never is), a list the normalizer returns has at most three
  entries and every relevance score lies between 0 and 1, and it does return a list when
  the source document and the snippet of each of the first three documents convert
  without throwing; a payload that carries a recommendations array is returned unchanged.
\<close>

theorem normalizer_bounds:
  "(raw_recommendations raw = None \<and>
    JNum NaN \<notin> set (first_batch (Option.bind (search_bundle raw) distances)) \<and>
    normalize_raw rt raw = Inr recs
      \<longrightarrow> length recs \<le> 3 \<and> (\<forall>r \<in> set recs. in_unit_interval (relevanceScore r)))
   \<and> (raw_recommendations raw = None \<and>
       others_convert rt (first_batch (Option.bind (search_bundle raw) metadatas))
         (take 3 (first_batch (Option.bind (search_bundle raw) documents)))
      \<longrightarrow> \<not> isl (normalize_raw rt raw))
   \<and> (raw_recommendations raw = Some recs \<longrightarrow> normalize_raw rt raw = Inr recs)"
  using fallback_scores_in_range [of raw rt recs] normalize_raw_Inr(1) [of raw rt recs]
    normalize_raw_converts [of raw rt]
  by (simp add: normalize_raw_passthrough)

lemma four_documents_columns:
  "raw_recommendations four_documents_body = None"
  "first_batch (Option.bind (search_bundle four_documents_body) documents)
     = [JStr ''d1'', JStr ''d2'', JStr ''d3'', JStr ''d4'']"
  "first_batch (Option.bind (search_bundle four_documents_body) metadatas) = []"
  "first_batch (Option.bind (search_bundle four_documents_body) ids) = []"
  "first_batch (Option.bind (search_bundle four_documents_body) distances)
     = [JNum (Fin 2.5), JNum (Fin (- 1))]"
  by (simp_all add: four_documents_body_def bundle_body_def raw_recommendations_def
      search_bundle_def ChromaResults.truncate_def first_batch_def at_index_def)

lemma plain_record:
  "source_document_of rt (meta_at [] i) = Inr ''Unknown Document''"
  by (simp add: source_document_of_def meta_at_def at_index_def field_def js_or_def)

lemma short_snippet:
  "s \<noteq> [] \<Longrightarrow> length s \<le> 200 \<Longrightarrow> snippet_text rt (JStr s) = Inr s"
  by (simp add: snippet_text_def length_exceeds_200_def)

lemma four_documents_scores:
  "relevance_of [JNum (Fin 2.5), JNum (Fin (- 1))] 0 = Fin 0"
  "relevance_of [JNum (Fin 2.5), JNum (Fin (- 1))] 1 = Fin 1"
  "relevance_of [JNum (Fin 2.5), JNum (Fin (- 1))] 2 = Fin (1351079888211149 / 2251799813685248)"
proof -
  show "relevance_of [JNum (Fin 2.5), JNum (Fin (- 1))] 0 = Fin 0"
    by (simp add: relevance_of_def at_index_def Math_max_def Math_min_def js_sub_def round_double_0)
  show "relevance_of [JNum (Fin 2.5), JNum (Fin (- 1))] 1 = Fin 1"
    by (simp add: relevance_of_def at_index_def Math_max_def Math_min_def js_sub_def round_double_1)
  have "relevance_of [JNum (Fin 2.5), JNum (Fin (- 1))] 2
      = js_sub (lit 0.8) (js_mul (Fin (real 2)) (lit 0.1))"
    by (simp add: relevance_of_def at_index_def)
  then show "relevance_of [JNum (Fin 2.5), JNum (Fin (- 1))] 2
      = Fin (1351079888211149 / 2251799813685248)"
    by (simp only: placeholder_2)
qed

lemma four_documents_connections:
  "connection_of (Fin 0) = context_conn"
  "connection_of (Fin 1) = elaboration"
  "connection_of (Fin (1351079888211149 / 2251799813685248)) = correlation"
  unfolding connection_of_def lit_0_8 lit_0_6 by simp_all

text \<open>
  Claim C2, amended, at a bundle of four documents with the distances 2.5 and -1, and at
  the body with four recommendations. The third record has no distance: its score is the
  double that \<open>0.8 - 2 * 0.1\<close> evaluates to, 0.6000000000000001, which is above the double
  0.6, so its connection type is correlation.
\<close>

theorem normalizer_bounds_witness:
  "raw_recommendations four_documents_body = None \<and>
   others_convert sample_runtime
     (first_batch (Option.bind (search_bundle four_documents_body) metadatas))
     (take 3 (first_batch (Option.bind (search_bundle four_documents_body) documents))) \<and>
   JNum NaN \<notin> set (first_batch (Option.bind (search_bundle four_documents_body) distances)) \<and>
   map_sum id length (normalize_raw sample_runtime four_documents_body) = Inr 3 \<and>
   map_sum id (map relevanceScore) (normalize_raw sample_runtime four_documents_body)
     = Inr [Fin 0, Fin 1, Fin (1351079888211149 / 2251799813685248)] \<and>
   map_sum id (map connectionType) (normalize_raw sample_runtime four_documents_body)
     = Inr [context_conn, elaboration, correlation] \<and>
   in_unit_interval (Fin (1351079888211149 / 2251799813685248)) \<and>
   raw_recommendations oversized_body = Some (projr (normalize_raw sample_runtime oversized_body)) \<and>
   length (projr (normalize_raw sample_runtime oversized_body)) = 4"
proof -
  note cols = four_documents_columns
  have h1: "raw_recommendations four_documents_body = None" by (rule cols(1))
  have h2: "JNum NaN \<notin> set (first_batch (Option.bind (search_bundle four_documents_body) distances))"
    by (simp add: cols(5))
  have conv: "others_convert sample_runtime
      (first_batch (Option.bind (search_bundle four_documents_body) metadatas))
      (take 3 (first_batch (Option.bind (search_bundle four_documents_body) documents)))"
    by (simp add: cols others_convert_def plain_record short_snippet upt_rec [of 0]
        upt_rec [of 1] upt_rec [of 2])
  have "\<not> isl (normalize_raw sample_runtime four_documents_body)"
    using h1 conv
      normalizer_bounds [where raw = four_documents_body and rt = sample_runtime]
    by blast
  then obtain recs where recs: "normalize_raw sample_runtime four_documents_body = Inr recs"
    by (cases "normalize_raw sample_runtime four_documents_body") auto
  have bounds: "length recs \<le> 3 \<and> (\<forall>r \<in> set recs. in_unit_interval (relevanceScore r))"
    using h1 h2 recs
      normalizer_bounds [where raw = four_documents_body and rt = sample_runtime and recs = recs]
    by blast
  have len: "length recs = 3"
    using normalize_raw_Inr(1) [OF h1 recs] by (simp add: cols)
  have score: "relevanceScore (recs ! i)
      = relevance_of [JNum (Fin 2.5), JNum (Fin (- 1))] i" if "i < 3" for i
    using to_recommendation_Inr(1) [OF normalize_raw_Inr(2) [OF h1 recs]] that len
    by (simp add: cols)
  have s0: "relevanceScore (recs ! 0) = Fin 0"
    unfolding four_documents_scores(1) [symmetric] by (rule score) simp
  have s1: "relevanceScore (recs ! 1) = Fin 1"
    unfolding four_documents_scores(2) [symmetric] by (rule score) simp
  have s2: "relevanceScore (recs ! 2) = Fin (1351079888211149 / 2251799813685248)"
    unfolding four_documents_scores(3) [symmetric] by (rule score) simp
  have "recs = [recs ! 0, recs ! 1, recs ! 2]"
    using len by (simp add: list_eq_iff_nth_eq nth_Cons numeral_2_eq_2 split: nat.splits)
  then have "map relevanceScore recs
      = [relevanceScore (recs ! 0), relevanceScore (recs ! 1), relevanceScore (recs ! 2)]"
    by (metis list.simps(8) list.simps(9))
  then have scores: "map relevanceScore recs
      = [Fin 0, Fin 1, Fin (1351079888211149 / 2251799813685248)]"
    by (simp only: s0 s1 s2)
  have kind: "connectionType (recs ! i) = connection_of (relevanceScore (recs ! i))"
    if "i < 3" for i
    using to_recommendation_Inr(1,2) [OF normalize_raw_Inr(2) [OF h1 recs]] that len
    by simp
  have k0: "connectionType (recs ! 0) = context_conn"
    unfolding four_documents_connections(1) [symmetric] s0 [symmetric] by (rule kind) simp
  have k1: "connectionType (recs ! 1) = elaboration"
    unfolding four_documents_connections(2) [symmetric] s1 [symmetric] by (rule kind) simp
  have k2: "connectionType (recs ! 2) = correlation"
    unfolding four_documents_connections(3) [symmetric] s2 [symmetric] by (rule kind) simp
  have "map connectionType recs
      = [connectionType (recs ! 0), connectionType (recs ! 1), connectionType (recs ! 2)]"
    using \<open>recs = [recs ! 0, recs ! 1, recs ! 2]\<close> by (metis list.simps(8) list.simps(9))
  then have kinds: "map connectionType recs = [context_conn, elaboration, correlation]"
    by (simp only: k0 k1 k2)
  have "recs ! 2 \<in> set recs"
    using len by simp
  then have "in_unit_interval (relevanceScore (recs ! 2))"
    using bounds by blast
  then have third: "in_unit_interval (Fin (1351079888211149 / 2251799813685248))"
    by (simp only: s2)
  have h3: "raw_recommendations oversized_body
      = Some [sample_rec ''r1'' (Fin 1) zero_bbox (Fin 1.5), sample_rec ''r2'' (Fin 1) zero_bbox (Fin 0.5),
        sample_rec ''r3'' (Fin 1) zero_bbox (Fin 0.5), sample_rec ''r4'' (Fin 1) zero_bbox (Fin 0.5)]"
    by (simp add: oversized_body_def recommendations_body_def raw_recommendations_def)
  have unchanged: "normalize_raw sample_runtime oversized_body
      = Inr [sample_rec ''r1'' (Fin 1) zero_bbox (Fin 1.5), sample_rec ''r2'' (Fin 1) zero_bbox (Fin 0.5),
        sample_rec ''r3'' (Fin 1) zero_bbox (Fin 0.5), sample_rec ''r4'' (Fin 1) zero_bbox (Fin 0.5)]"
    using h3 normalizer_bounds [where raw = oversized_body and rt = sample_runtime]
    by blast
  have n1: "map_sum id length (normalize_raw sample_runtime four_documents_body) = Inr 3"
    by (simp add: recs len)
  have n2: "map_sum id (map relevanceScore) (normalize_raw sample_runtime four_documents_body)
     = Inr [Fin 0, Fin 1, Fin (1351079888211149 / 2251799813685248)]"
    unfolding recs by (simp only: map_sum.simps scores)
  have n2': "map_sum id (map connectionType) (normalize_raw sample_runtime four_documents_body)
     = Inr [context_conn, elaboration, correlation]"
    unfolding recs by (simp only: map_sum.simps kinds)
  have n3: "raw_recommendations oversized_body
      = Some (projr (normalize_raw sample_runtime oversized_body))"
    unfolding unchanged h3 by simp
  have n4: "length (projr (normalize_raw sample_runtime oversized_body)) = 4"
    unfolding unchanged by simp
  show ?thesis using h1 conv h2 n1 n2 n2' third n3 n4 by blast
qed

subsection \<open>The scenario of a single search result\<close>


lemma long_snippet:
  "length s > 200 \<Longrightarrow> snippet_text rt (JStr s) = Inr (take 200 s @ ''...'')"
  by (auto simp: snippet_text_def length_exceeds_200_def)

lemma scenario_score: "relevance_of [JNum (lit 0.1)] 0 = lit 0.9"
proof -
  have "Math_min (Math_max (lit 0.1) (Fin 0)) (Fin 1) = lit 0.1"
    unfolding lit_0_1 by (simp add: Math_max_def Math_min_def)
  then show ?thesis
    using one_minus_tenth by (simp add: relevance_of_def at_index_def)
qed

lemma scenario_connection: "connection_of (lit 0.9) = elaboration"
  unfolding connection_of_def lit_0_9 lit_0_8 by simp

lemma scenario_page:
  "JSON_parse rt ''[2]'' = Some (JArr [JNum (Fin 2)]) \<Longrightarrow>
   js_add (parsePageStart rt (Some (JStr ''[2]''))) (Fin 1) = Fin 3"
  using round_double_3
  by (simp add: parsePageStart_def parsePageStart_try_def replace_quotes_def
      is_nonempty_array_def first_element_def at_index_def return_number_or_zero_def
      Number_def or_zero_def num_truthy_def)

lemma bundle_columns:
  "raw_recommendations (bundle_body docs metas dists) = None"
  "first_batch (Option.bind (search_bundle (bundle_body docs metas dists)) documents) = docs"
  "first_batch (Option.bind (search_bundle (bundle_body docs metas dists)) metadatas) = metas"
  "first_batch (Option.bind (search_bundle (bundle_body docs metas dists)) ids) = []"
  "first_batch (Option.bind (search_bundle (bundle_body docs metas dists)) distances) = dists"
  by (simp_all add: bundle_body_def raw_recommendations_def search_bundle_def
      ChromaResults.truncate_def first_batch_def at_index_def)

lemma normalize_raw_single:
  "normalize_raw rt (bundle_body [snip] metas dists)
     = map_sum id (\<lambda>r. [r]) (to_recommendation rt metas [] dists snip 0)"
  by (simp add: normalize_raw_fallback bundle_columns split: sum.splits)

text \<open>
  Claim C4: a bundle whose only document is a snippet of more than 200 characters, with
  the page range \<open>"[2]"\<close> and the distance 0.1, gives a single recommendation with page
  number 3, relevance score 0.9, connection type elaboration and the first 200 characters
  of the snippet followed by three dots. The numbers are doubles: the distance is the
  double nearest to 0.1 and the score the double nearest to 0.9. The source document of
  the metadata is taken to convert to a string, as it does when the metadata has no such
  key.
\<close>

theorem single_result_scenario:
  assumes "JSON_parse rt ''[2]'' = Some (JArr [JNum (Fin 2)])"
    and "length snip > 200"
    and "field meta ''page_range'' = Some (JStr ''[2]'')"
    and "\<not> isl (source_document_of rt meta)"
  shows "\<exists>r. normalize_raw rt (bundle_body [JStr snip] [meta] [JNum (lit 0.1)]) = Inr [r]
           \<and> pageNumber r = Fin 3
           \<and> relevanceScore r = lit 0.9
           \<and> connectionType r = elaboration
           \<and> snippet r = take 200 snip @ ''...''"
proof -
  obtain kvs where meta: "meta = JObj kvs"
    using assms(3) by (cases meta) (simp_all add: field_def)
  have at: "meta_at [meta] 0 = meta"
    by (simp add: meta_at_def at_index_def meta)
  obtain source where source: "source_document_of rt meta = Inr source"
    using assms(4) by (cases "source_document_of rt meta") auto
  have shown: "snippet_text rt (JStr snip) = Inr (take 200 snip @ ''...'')"
    using assms(2) by (rule long_snippet)
  have page: "js_add (parsePageStart rt (field meta ''page_range'')) (Fin 1) = Fin 3"
    unfolding assms(3) using assms(1) by (rule scenario_page)
  have "to_recommendation rt [meta] [] [JNum (lit 0.1)] (JStr snip) 0
      = Inr \<lparr> rec_id = id_of [] 0, sourceDocument = source,
              snippet = take 200 snip @ ''...'', pageNumber = Fin 3,
              boundingBox = parseFirstBBox rt (field meta ''chunk_bboxes''),
              relevanceScore = lit 0.9, connectionType = elaboration \<rparr>"
    by (simp only: to_recommendation_def Let_def at source shown page scenario_score
        scenario_connection sum.case)
  then show ?thesis
    by (simp add: normalize_raw_single)
qed

text \<open>
  Claim C4 at a snippet of 201 characters and the metadata \<open>{"page_range": "[2]"}\<close>.
\<close>

theorem single_result_scenario_witness:
  "JSON_parse sample_runtime ''[2]'' = Some (JArr [JNum (Fin 2)]) \<and>
   length (replicate 201 CHR ''a'') > 200 \<and>
   field (JObj [(''page_range'', JStr ''[2]'')]) ''page_range'' = Some (JStr ''[2]'') \<and>
   source_document_of sample_runtime (JObj [(''page_range'', JStr ''[2]'')])
     = Inr ''Unknown Document'' \<and>
   map_sum id (map pageNumber) (normalize_raw sample_runtime
      (bundle_body [JStr (replicate 201 CHR ''a'')] [JObj [(''page_range'', JStr ''[2]'')]]
         [JNum (lit 0.1)])) = Inr [Fin 3] \<and>
   map_sum id (map relevanceScore) (normalize_raw sample_runtime
      (bundle_body [JStr (replicate 201 CHR ''a'')] [JObj [(''page_range'', JStr ''[2]'')]]
         [JNum (lit 0.1)])) = Inr [Fin (8106479329266893 / 9007199254740992)] \<and>
   map_sum id (map connectionType) (normalize_raw sample_runtime
      (bundle_body [JStr (replicate 201 CHR ''a'')] [JObj [(''page_range'', JStr ''[2]'')]]
         [JNum (lit 0.1)])) = Inr [elaboration] \<and>
   map_sum id (map snippet) (normalize_raw sample_runtime
      (bundle_body [JStr (replicate 201 CHR ''a'')] [JObj [(''page_range'', JStr ''[2]'')]]
         [JNum (lit 0.1)])) = Inr [replicate 200 CHR ''a'' @ ''...'']"
proof -
  let ?meta = "JObj [(''page_range'', JStr ''[2]'')]"
  let ?snip = "replicate 201 CHR ''a''"
  have h1: "JSON_parse sample_runtime ''[2]'' = Some (JArr [JNum (Fin 2)])"
    by (simp add: sample_runtime_def)
  have h2: "length ?snip > 200" by simp
  have h3: "field ?meta ''page_range'' = Some (JStr ''[2]'')"
    by (simp add: field_def)
  have h4: "source_document_of sample_runtime ?meta = Inr ''Unknown Document''"
    by (simp add: source_document_of_def field_def js_or_def)
  have h4': "\<not> isl (source_document_of sample_runtime ?meta)"
    unfolding h4 by simp
  obtain r where r: "normalize_raw sample_runtime
        (bundle_body [JStr ?snip] [?meta] [JNum (lit 0.1)]) = Inr [r]"
      "pageNumber r = Fin 3" "relevanceScore r = lit 0.9" "connectionType r = elaboration"
      "snippet r = take 200 ?snip @ ''...''"
    using single_result_scenario [where rt = sample_runtime and snip = ?snip and meta = ?meta,
        OF h1 h2 h3 h4']
    by blast
  have c1: "map_sum id (map pageNumber) (normalize_raw sample_runtime
      (bundle_body [JStr ?snip] [?meta] [JNum (lit 0.1)])) = Inr [Fin 3]"
    unfolding r(1) by (simp add: r(2))
  have c2: "map_sum id (map relevanceScore) (normalize_raw sample_runtime
      (bundle_body [JStr ?snip] [?meta] [JNum (lit 0.1)]))
        = Inr [Fin (8106479329266893 / 9007199254740992)]"
    unfolding r(1) lit_0_9 [symmetric] by (simp add: r(3))
  have c3: "map_sum id (map connectionType) (normalize_raw sample_runtime
      (bundle_body [JStr ?snip] [?meta] [JNum (lit 0.1)])) = Inr [elaboration]"
    unfolding r(1) by (simp add: r(4))
  have "take 200 ?snip = replicate 200 CHR ''a''" by simp
  then have c4: "map_sum id (map snippet) (normalize_raw sample_runtime
      (bundle_body [JStr ?snip] [?meta] [JNum (lit 0.1)])) = Inr [replicate 200 CHR ''a'' @ ''...'']"
    unfolding r(1) by (simp add: r(5))
  show ?thesis using h1 h2 h3 h4 c1 c2 c3 c4 by blast
qed

subsection \<open>The error message of the insights fetch\<close>

lemma getInsights_try_throws: "\<exists>e. getInsights_try rt status body = Throws e"
  by (auto simp: getInsights_try_def Let_def split: sum.splits option.splits)

lemma getInsights_not_ok:
  "getInsights rt (Response False status body) = Inl (Error (''Insights failed: '' @ status))"
  using getInsights_try_throws [of rt status body] by (auto simp: getInsights_def)

text \<open>
  Claim C5 says that the error surfaced for a response that is not ok carries the body's
  detail, message or error field, and the status text only when there is none. At the
  response with the status text \<open>Internal Server Error\<close> and the body
  \<open>{"detail": "Model unavailable"}\<close>, the \<open>try\<close> block throws the error built from the
  detail, and the error \<open>getInsights\<close> rejects with is built from the status text.
\<close>

theorem insights_detail_discarded:
  "getInsights_try sample_runtime ''Internal Server Error'' (Inr detail_body)
     = Throws (Error ''Insights failed: Model unavailable'')
   \<and> getInsights sample_runtime (Response False ''Internal Server Error'' (Inr detail_body))
     = Inl (Error ''Insights failed: Internal Server Error'')"
  by (simp add: getInsights_not_ok)
     (simp add: getInsights_try_def detail_body_def field_def js_or_def Let_def)

subsection \<open>Malformed metadata\<close>



lemma parsePageStart_not_an_array:
  "\<not> is_nonempty_array (denoted rt v) \<Longrightarrow> parsePageStart rt v = Fin 0"
  by (auto simp: denoted_def parsePageStart_def parsePageStart_try_def is_nonempty_array_def
      split: option.splits jsval.splits)

lemma parseFirstBBox_not_an_array:
  "\<not> is_nonempty_array (denoted rt v) \<Longrightarrow> parseFirstBBox rt v = zero_bbox"
  by (auto simp: denoted_def parseFirstBBox_def parseFirstBBox_try_def is_nonempty_array_def
      split: option.splits jsval.splits)

lemma parsePageStart_absorbs_throw:
  "parsePageStart_try rt v = Throws e \<Longrightarrow> parsePageStart rt v = Fin 0"
  by (simp add: parsePageStart_def)

lemma parseFirstBBox_absorbs_throw:
  "parseFirstBBox_try rt v = Throws e \<Longrightarrow> parseFirstBBox rt v = zero_bbox"
  by (simp add: parseFirstBBox_def)

lemma parseFirstBBox_unconvertible_entry:
  "parseFirstBBox rt (Some (JArr [JArr [JObj [(''toString'', JNum (Fin 1))],
      JNum (Fin 2), JNum (Fin 3), JNum (Fin 4)]])) = zero_bbox"
  by (simp add: parseFirstBBox_def parseFirstBBox_try_def is_nonempty_array_def
      first_element_def at_index_def Number_def)

lemma source_document_unconvertible:
  "source_document_of rt (JObj [(''document'', JObj [(''toString'', JNum (Fin 1))])])
     = Inl not_primitive"
  by (simp add: source_document_of_def field_def js_or_def)




section \<open>Properties of the page\<close>

subsection \<open>Timers and the debounce\<close>

lemma filter_tracked:
  assumes "\<forall>t \<in> set ts. fst t = tid"
  shows "filter (\<lambda>t. fst t \<noteq> tid) ts = []"
  using assms by (induction ts) auto

lemma handleTextSelect_tracked:
  assumes "timers_tracked s"
  shows "handleTextSelect s text =
     s\<lparr> annotations := [],
        selectionTimerRef := Some (next_timer_id s),
        timers := [(next_timer_id s, now s + 600, text, viewerApis s)],
        next_timer_id := next_timer_id s + 1 \<rparr>"
proof (cases "selectionTimerRef s")
  case None
  then have "timers s = []" using assms by (cases "timers s") (auto simp: timers_tracked_def)
  then show ?thesis using None
    by (simp add: handleTextSelect_def setTimeout_def)
next
  case (Some tid)
  show ?thesis
  proof (cases "tid = 0")
    case True
    then have "timers s = []" using assms Some by (cases "timers s") (auto simp: timers_tracked_def)
    then show ?thesis using Some True
      by (simp add: handleTextSelect_def setTimeout_def)
  next
    case False
    have "\<forall>t \<in> set (timers s). fst t = tid" using assms Some by (auto simp: timers_tracked_def)
    then have "filter (\<lambda>t. fst t \<noteq> tid) (timers s) = []" by (rule filter_tracked)
    then show ?thesis using Some False
      by (simp add: handleTextSelect_def setTimeout_def clearTimeout_def)
  qed
qed

lemma elapse_not_due:
  assumes "timers s = [(tid, due_at, text, apis)]" "now s + d < due_at"
  shows "elapse s d = s\<lparr> now := now s + d \<rparr>"
  using assms by (simp add: elapse_def Let_def)

lemma elapse_due:
  assumes "timers s = [(tid, due_at, text, apis)]" "due_at \<le> now s + d"
  shows "elapse s d = processSelectionWithScreenshot (s\<lparr> now := now s + d, timers := [] \<rparr>) apis text"
  using assms by (simp add: elapse_def Let_def)

lemma burst_arms_one_timer:
  assumes "timers_tracked s" "list_all (\<lambda>(gap, sel). gap < 600) rest"
  shows "run_events rt client s (burst_events t rest) =
     s\<lparr> annotations := [],
        selectionTimerRef := Some (next_timer_id s + length rest),
        now := now s + sum_list (map fst rest),
        timers := [(next_timer_id s + length rest, now s + sum_list (map fst rest) + 600,
                    last_text t rest, viewerApis s)],
        next_timer_id := next_timer_id s + length rest + 1 \<rparr>"
  using assms
proof (induction rest arbitrary: s t)
  case Nil
  then show ?case by (simp add: run_events_def handleTextSelect_tracked last_text_def)
next
  case (Cons p rest)
  obtain gap t' where p: "p = (gap, t')" by (cases p)
  let ?s1 = "handleTextSelect s t"
  let ?s2 = "elapse ?s1 gap"
  have gap: "gap < 600" using Cons.prems(2) p by simp
  have s1: "?s1 = s\<lparr> annotations := [],
        selectionTimerRef := Some (next_timer_id s),
        timers := [(next_timer_id s, now s + 600, t, viewerApis s)],
        next_timer_id := next_timer_id s + 1 \<rparr>"
    using Cons.prems(1) by (rule handleTextSelect_tracked)
  have s2: "?s2 = s\<lparr> annotations := [],
        selectionTimerRef := Some (next_timer_id s),
        timers := [(next_timer_id s, now s + 600, t, viewerApis s)],
        next_timer_id := next_timer_id s + 1, now := now s + gap \<rparr>"
    using elapse_not_due[of ?s1 "next_timer_id s" "now s + 600" t "viewerApis s" gap] gap
    by (simp add: s1)
  have tr: "timers_tracked ?s2"
    using Cons.prems(1) unfolding s2 by (simp add: timers_tracked_def)
  have rest: "list_all (\<lambda>(gap, sel). gap < 600) rest" using Cons.prems(2) by simp
  have "run_events rt client s (burst_events t (p # rest)) = run_events rt client ?s2 (burst_events t' rest)"
    by (simp add: p run_events_def)
  also have "\<dots> = ?s2\<lparr> annotations := [],
        selectionTimerRef := Some (next_timer_id ?s2 + length rest),
        now := now ?s2 + sum_list (map fst rest),
        timers := [(next_timer_id ?s2 + length rest, now ?s2 + sum_list (map fst rest) + 600,
                    last_text t' rest, viewerApis ?s2)],
        next_timer_id := next_timer_id ?s2 + length rest + 1 \<rparr>"
    using Cons.IH[OF tr rest] .
  also have "\<dots> = s\<lparr> annotations := [],
        selectionTimerRef := Some (next_timer_id s + length (p # rest)),
        now := now s + sum_list (map fst (p # rest)),
        timers := [(next_timer_id s + length (p # rest), now s + sum_list (map fst (p # rest)) + 600,
                    last_text t (p # rest), viewerApis s)],
        next_timer_id := next_timer_id s + length (p # rest) + 1 \<rparr>"
    unfolding s2 by (simp add: p last_text_def add.assoc)
  finally show ?case .
qed


lemma process_frame:
  "timers (processSelectionWithScreenshot s apis text) = timers s"
  "selectionTimerRef (processSelectionWithScreenshot s apis text) = selectionTimerRef s"
  "next_timer_id (processSelectionWithScreenshot s apis text) = next_timer_id s"
  "annotations (processSelectionWithScreenshot s apis text) = annotations s"
  "recommendations (processSelectionWithScreenshot s apis text) = recommendations s"
  "requests (processSelectionWithScreenshot s apis text) = requests s"
  by (simp_all add: processSelectionWithScreenshot_def Let_def)

lemma foldl_frame:
  assumes "\<And>st x. g (f st x) = g st"
  shows "g (foldl f s xs) = g s"
  using assms by (induction xs arbitrary: s) simp_all

lemma fold_process_frame:
  "timers (foldl (\<lambda>st (tid, due_at, text, apis). processSelectionWithScreenshot st apis text) s due) = timers s"
  "selectionTimerRef (foldl (\<lambda>st (tid, due_at, text, apis). processSelectionWithScreenshot st apis text) s due) = selectionTimerRef s"
  "next_timer_id (foldl (\<lambda>st (tid, due_at, text, apis). processSelectionWithScreenshot st apis text) s due) = next_timer_id s"
  "annotations (foldl (\<lambda>st (tid, due_at, text, apis). processSelectionWithScreenshot st apis text) s due) = annotations s"
  by (rule foldl_frame, simp add: process_frame split: prod.splits)+

lemma elapse_frame:
  "timers (elapse s d) = filter (\<lambda>t. \<not> fst (snd t) \<le> now s + d) (timers s)"
  "selectionTimerRef (elapse s d) = selectionTimerRef s"
  "next_timer_id (elapse s d) = next_timer_id s"
  "annotations (elapse s d) = annotations s"
  by (simp_all add: elapse_def Let_def fold_process_frame)

lemma step_tracked: "timers_tracked s \<Longrightarrow> timers_tracked (step rt client s e)"
proof (cases e)
  case (TextSelect sel)
  assume "timers_tracked s"
  then show ?thesis using TextSelect
    by (simp add: handleTextSelect_tracked) (simp add: timers_tracked_def)
next
  case (Elapse d)
  assume "timers_tracked s"
  then show ?thesis using Elapse by (simp add: timers_tracked_def elapse_frame)
next
  case (ScreenshotSettled i ok)
  assume "timers_tracked s"
  then show ?thesis using ScreenshotSettled
    by (simp add: timers_tracked_def screenshot_settled_def split: option.splits run.splits)
next
  case (SearchSettled i outcome)
  assume "timers_tracked s"
  then show ?thesis using SearchSettled
    by (simp add: timers_tracked_def search_settled_def split: option.splits run.splits sum.splits)
qed (simp_all add: timers_tracked_def handleViewerReady_def handleJumpToPage_def
      handleUploadComplete_def handleDocumentSelect_def handleBackToLibrary_def
      handleBackToUpload_def library_button_click_def handleOpenSinglePdf_def
      split: option.splits)

lemma run_events_snoc: "run_events rt client s (evs @ [e]) = step rt client (run_events rt client s evs) e"
  by (simp add: run_events_def)

lemma run_events_append:
  "run_events rt client s (evs @ evs') = run_events rt client (run_events rt client s evs) evs'"
  by (simp add: run_events_def)

lemma reachable_tracked: "timers_tracked (run_events rt client initial evs)"
proof (induction evs rule: rev_induct)
  case Nil
  show ?case by (simp add: run_events_def initial_def timers_tracked_def)
next
  case (snoc e evs)
  then show ?case by (simp add: run_events_snoc step_tracked)
qed

lemma step_one_highlight:
  "length (annotations s) \<le> 1 \<Longrightarrow> length (annotations (step rt client s e)) \<le> 1"
  by (cases e)
     (simp_all add: handleViewerReady_def handleTextSelect_def setTimeout_def clearTimeout_def
        elapse_frame screenshot_settled_def search_settled_def handleJumpToPage_def
        handleUploadComplete_def handleDocumentSelect_def handleBackToLibrary_def
        handleBackToUpload_def library_button_click_def handleOpenSinglePdf_def Let_def
        split: option.splits run.splits sum.splits prod.splits)

lemma reachable_one_highlight: "length (annotations (run_events rt client initial evs)) \<le> 1"
proof (induction evs rule: rev_induct)
  case Nil
  show ?case by (simp add: run_events_def initial_def)
next
  case (snoc e evs)
  then show ?case unfolding run_events_snoc by (rule step_one_highlight)
qed

lemma burst_collapses:
  assumes "timers_tracked s" "list_all (\<lambda>(gap, sel). gap < 600) rest" "600 \<le> d"
  shows "run_events rt client s (burst_events t rest @ [Elapse d]) =
     processSelectionWithScreenshot
       (s\<lparr> annotations := [],
           selectionTimerRef := Some (next_timer_id s + length rest),
           now := now s + sum_list (map fst rest) + d,
           timers := [],
           next_timer_id := next_timer_id s + length rest + 1 \<rparr>)
       (viewerApis s) (last_text t rest)"
proof -
  let ?a = "s\<lparr> annotations := [],
        selectionTimerRef := Some (next_timer_id s + length rest),
        now := now s + sum_list (map fst rest),
        timers := [(next_timer_id s + length rest, now s + sum_list (map fst rest) + 600,
                    last_text t rest, viewerApis s)],
        next_timer_id := next_timer_id s + length rest + 1 \<rparr>"
  have "run_events rt client s (burst_events t rest @ [Elapse d]) = elapse ?a d"
    using burst_arms_one_timer[OF assms(1,2)] by (simp add: run_events_snoc)
  also have "\<dots> = processSelectionWithScreenshot (?a\<lparr> now := now ?a + d, timers := [] \<rparr>)
      (viewerApis s) (last_text t rest)"
    using assms(3)
    by (intro elapse_due[where tid = "next_timer_id s + length rest"
          and due_at = "now s + sum_list (map fst rest) + 600"]) simp_all
  also have "?a\<lparr> now := now ?a + d, timers := [] \<rparr> =
       s\<lparr> annotations := [],
           selectionTimerRef := Some (next_timer_id s + length rest),
           now := now s + sum_list (map fst rest) + d,
           timers := [],
           next_timer_id := next_timer_id s + length rest + 1 \<rparr>"
    by (rule system.equality) simp_all
  finally show ?thesis .
qed


lemma trim_blank:
  assumes "list_all is_space sel"
  shows "trim sel = []"
proof -
  have blank: "dropWhile is_space sel = []" using assms by (induction sel) simp_all
  show ?thesis unfolding trim_def blank by simp
qed

lemma process_blank:
  "list_all is_space sel \<Longrightarrow> processSelectionWithScreenshot s apis sel = s"
  by (simp add: processSelectionWithScreenshot_def trim_blank)

lemma process_starts_run:
  assumes "apis \<noteq> None" "trim sel \<noteq> []" "viewer_element_present s"
  shows "processSelectionWithScreenshot s apis sel =
     s\<lparr> isLoading := True, error := None, insights := None,
        runs := runs s @ [AwaitScreenshot (trim sel)] \<rparr>"
proof -
  have "sel \<noteq> []" using assms(2) by (auto simp: trim_def)
  then show ?thesis using assms
    by (auto simp: processSelectionWithScreenshot_def Let_def viewer_element_present_def)
qed

text \<open>
  Claim C3 as stated (every burst gives exactly one request, carrying the text of its
  last event) fails in states the page reaches. With a local file open and the viewer
  ready: a burst whose last event is blank starts no run and sends no request, although
  an earlier event of the burst carried text; a burst whose screenshot capture is
  rejected sends no request; and when the header's Library button is clicked during the
  quiet period the timeout finds no viewer element, so no run starts and no request is
  sent.
\<close>

theorem debounce_request_counterexample:
  "list_all (\<lambda>(gap, sel). gap < 600) blank_burst
   \<and> runs (run_events sample_runtime (apiClient None) ready
        (burst_events ''The'' blank_burst @ [Elapse 600])) = []
   \<and> requests (run_events sample_runtime (apiClient None) ready
        (burst_events ''The'' blank_burst @ [Elapse 600])) = []
   \<and> list_all (\<lambda>(gap, sel). gap < 600) sample_burst
   \<and> requests (run_events sample_runtime (apiClient None) ready
        (burst_events ''The'' sample_burst @ [Elapse 600, ScreenshotSettled 0 False])) = []
   \<and> runs (run_events sample_runtime (apiClient None) ready
        (burst_events ''The'' sample_burst @ [LibraryButton, Elapse 600])) = []
   \<and> requests (run_events sample_runtime (apiClient None) ready
        (burst_events ''The'' sample_burst @ [LibraryButton, Elapse 600])) = []
   \<and> timers (run_events sample_runtime (apiClient None) ready
        (burst_events ''The'' sample_burst @ [LibraryButton, Elapse 600])) = []"
  by code_simp

text \<open>
  Claim C3, amended: a burst of selection events, each less than 600 ms after the one
  before, followed by a quiet period of at least 600 ms, arriving in any state the page
  can reach (\<open>S\<close>). Every event cancels the pending timeout, so the whole burst amounts to
  one call of \<open>processSelectionWithScreenshot\<close>, on the text of the last event, with no
  timeout left pending. When the viewer handle is ready, that text is not blank and the
  viewer element is mounted, the call starts exactly one run; once its screenshot
  resolves exactly one request has been sent, carrying the trimmed text of the last
  event, and if the screenshot is rejected none is sent. In every other case the call
  starts no run and no request is sent.
\<close>

theorem debounce_burst:
  fixes rt :: js_runtime and client :: ApiClient and history :: "event list"
    and t :: string and rest :: "(nat \<times> string) list" and d :: nat
  defines "S \<equiv> run_events rt client initial history"
  defines "F \<equiv> run_events rt client S (burst_events t rest @ [Elapse d])"
  assumes "list_all (\<lambda>(gap, sel). gap < 600) rest" and "600 \<le> d"
  shows "F = processSelectionWithScreenshot
               (S\<lparr> annotations := [],
                   selectionTimerRef := Some (next_timer_id S + length rest),
                   now := now S + sum_list (map fst rest) + d,
                   timers := [],
                   next_timer_id := next_timer_id S + length rest + 1 \<rparr>)
               (viewerApis S) (last_text t rest)
       \<and> timers F = []
       \<and> (viewerApis S \<noteq> None \<and> trim (last_text t rest) \<noteq> [] \<and> viewer_element_present S
            \<longrightarrow> runs F = runs S @ [AwaitScreenshot (trim (last_text t rest))]
              \<and> requests F = requests S
              \<and> requests (screenshot_settled F (length (runs S)) True)
                  = requests S @ [trim (last_text t rest)]
              \<and> requests (screenshot_settled F (length (runs S)) False) = requests S)
       \<and> (\<not> run_starts S (last_text t rest)
            \<longrightarrow> runs F = runs S \<and> requests F = requests S)"
proof -
  let ?Q = "S\<lparr> annotations := [],
                   selectionTimerRef := Some (next_timer_id S + length rest),
                   now := now S + sum_list (map fst rest) + d,
                   timers := [],
                   next_timer_id := next_timer_id S + length rest + 1 \<rparr>"
  have tracked: "timers_tracked S" unfolding S_def by (rule reachable_tracked)
  have collapse: "F = processSelectionWithScreenshot ?Q (viewerApis S) (last_text t rest)"
    unfolding F_def using tracked assms(3,4) by (rule burst_collapses)
  have frame: "timers F = []"
    unfolding collapse by (simp add: process_frame)
  have issued: "runs F = runs S @ [AwaitScreenshot (trim (last_text t rest))]
              \<and> requests F = requests S
              \<and> requests (screenshot_settled F (length (runs S)) True)
                  = requests S @ [trim (last_text t rest)]
              \<and> requests (screenshot_settled F (length (runs S)) False) = requests S"
    if ready: "viewerApis S \<noteq> None" and nonblank: "trim (last_text t rest) \<noteq> []"
      and mounted: "viewer_element_present S"
  proof -
    have "viewer_element_present ?Q" using mounted by (simp add: viewer_element_present_def)
    then have "F = ?Q\<lparr> isLoading := True, error := None, insights := None,
        runs := runs ?Q @ [AwaitScreenshot (trim (last_text t rest))] \<rparr>"
      unfolding collapse using ready nonblank by (intro process_starts_run)
    then show ?thesis
      by (simp add: screenshot_settled_def at_index_def)
  qed
  have none: "runs F = runs S \<and> requests F = requests S"
    if "\<not> run_starts S (last_text t rest)"
  proof -
    have "viewerApis S = None \<or> trim (last_text t rest) = [] \<or> \<not> viewer_element_present ?Q"
      using that by (auto simp: run_starts_def viewer_element_present_def)
    then show ?thesis
      unfolding collapse
      by (auto simp: processSelectionWithScreenshot_def Let_def viewer_element_present_def)
  qed
  show ?thesis using collapse frame issued none by blast
qed

text \<open>
  Claim C3, amended, at a burst of three events, 100 ms and 250 ms apart, with the viewer
  ready, and at a burst whose last event is blank.
\<close>

theorem debounce_burst_witness:
  "list_all (\<lambda>(gap, sel). gap < 600) sample_burst \<and> (600 :: nat) \<le> 600
   \<and> viewerApis ready \<noteq> None \<and> trim (last_text ''The'' sample_burst) \<noteq> []
   \<and> viewer_element_present ready
   \<and> runs (run_events sample_runtime (apiClient None) ready
             (burst_events ''The'' sample_burst @ [Elapse 600]))
       = [AwaitScreenshot ''The quick fox'']
   \<and> requests (screenshot_settled
         (run_events sample_runtime (apiClient None) ready
             (burst_events ''The'' sample_burst @ [Elapse 600])) 0 True)
       = [''The quick fox'']
   \<and> requests (screenshot_settled
         (run_events sample_runtime (apiClient None) ready
             (burst_events ''The'' sample_burst @ [Elapse 600])) 0 False)
       = []
   \<and> list_all (\<lambda>(gap, sel). gap < 600) blank_burst
   \<and> \<not> run_starts ready (last_text ''The'' blank_burst)
   \<and> runs (run_events sample_runtime (apiClient None) ready
             (burst_events ''The'' blank_burst @ [Elapse 600])) = []
   \<and> requests (run_events sample_runtime (apiClient None) ready
             (burst_events ''The'' blank_burst @ [Elapse 600])) = []"
proof -
  have h1: "list_all (\<lambda>(gap, sel). gap < 600) sample_burst" by (simp add: sample_burst_def)
  have h2: "(600 :: nat) \<le> 600" by simp
  have h3: "viewerApis ready \<noteq> None" by code_simp
  have h4: "trim (last_text ''The'' sample_burst) \<noteq> []" by code_simp
  have h5: "viewer_element_present ready" by code_simp
  have h6: "list_all (\<lambda>(gap, sel). gap < 600) blank_burst" by (simp add: blank_burst_def)
  have h7: "\<not> run_starts ready (last_text ''The'' blank_burst)" by code_simp
  have e1: "runs ready = []" by code_simp
  have e2: "requests ready = []" by code_simp
  have e3: "trim (last_text ''The'' sample_burst) = ''The quick fox''" by code_simp
  have "runs (run_events sample_runtime (apiClient None) ready
             (burst_events ''The'' sample_burst @ [Elapse 600]))
          = runs ready @ [AwaitScreenshot (trim (last_text ''The'' sample_burst))]
      \<and> requests (run_events sample_runtime (apiClient None) ready
             (burst_events ''The'' sample_burst @ [Elapse 600])) = requests ready
      \<and> requests (screenshot_settled
           (run_events sample_runtime (apiClient None) ready
             (burst_events ''The'' sample_burst @ [Elapse 600])) (length (runs ready)) True)
          = requests ready @ [trim (last_text ''The'' sample_burst)]
      \<and> requests (screenshot_settled
           (run_events sample_runtime (apiClient None) ready
             (burst_events ''The'' sample_burst @ [Elapse 600])) (length (runs ready)) False)
          = requests ready"
    using h3 h4 h5
      debounce_burst [where rt = sample_runtime and client = "apiClient None"
        and history = ready_history and t = "''The''" and rest = sample_burst and d = 600,
        OF h1 h2]
    unfolding ready_def by blast
  then have issued: "runs (run_events sample_runtime (apiClient None) ready
             (burst_events ''The'' sample_burst @ [Elapse 600]))
          = [AwaitScreenshot ''The quick fox'']
      \<and> requests (screenshot_settled
           (run_events sample_runtime (apiClient None) ready
             (burst_events ''The'' sample_burst @ [Elapse 600])) 0 True)
          = [''The quick fox'']
      \<and> requests (screenshot_settled
           (run_events sample_runtime (apiClient None) ready
             (burst_events ''The'' sample_burst @ [Elapse 600])) 0 False)
          = []"
    unfolding e1 e2 e3 by simp
  have "runs (run_events sample_runtime (apiClient None) ready
             (burst_events ''The'' blank_burst @ [Elapse 600])) = runs ready
      \<and> requests (run_events sample_runtime (apiClient None) ready
             (burst_events ''The'' blank_burst @ [Elapse 600])) = requests ready"
    using h7
      debounce_burst [where rt = sample_runtime and client = "apiClient None"
        and history = ready_history and t = "''The''" and rest = blank_burst and d = 600,
        OF h6 h2]
    unfolding ready_def by blast
  then have dropped: "runs (run_events sample_runtime (apiClient None) ready
             (burst_events ''The'' blank_burst @ [Elapse 600])) = []
      \<and> requests (run_events sample_runtime (apiClient None) ready
             (burst_events ''The'' blank_burst @ [Elapse 600])) = []"
    unfolding e1 e2 by simp
  show ?thesis using h1 h2 h3 h4 h5 h6 h7 issued dropped by blast
qed

subsection \<open>Blank selections\<close>

text \<open>
  Claim C9: for a selection text that is empty or consists of white space only,
  \<open>processSelectionWithScreenshot\<close> returns the state it was given, and the pipeline from
  the selection event to the end of the quiet period, started in any state the page can
  reach, sends no request, starts no run and leaves the loading flag, the error, the
  insights and the recommendations as they were.
\<close>

theorem blank_selection_noop:
  fixes rt :: js_runtime and client :: ApiClient and history :: "event list"
    and sel :: string and d :: nat
  defines "S \<equiv> run_events rt client initial history"
  defines "F \<equiv> run_events rt client S [TextSelect sel, Elapse d]"
  assumes "list_all is_space sel"
  shows "processSelectionWithScreenshot s apis sel = s
       \<and> requests F = requests S \<and> runs F = runs S
       \<and> isLoading F = isLoading S \<and> error F = error S
       \<and> insights F = insights S \<and> recommendations F = recommendations S"
proof -
  have tracked: "timers_tracked S" unfolding S_def by (rule reachable_tracked)
  let ?A = "S\<lparr> annotations := [],
        selectionTimerRef := Some (next_timer_id S),
        timers := [(next_timer_id S, now S + 600, sel, viewerApis S)],
        next_timer_id := next_timer_id S + 1 \<rparr>"
  have F: "F = elapse ?A d"
    unfolding F_def by (simp add: run_events_def handleTextSelect_tracked [OF tracked])
  have "F = ?A\<lparr> now := now ?A + d \<rparr> \<or> F = ?A\<lparr> now := now ?A + d, timers := [] \<rparr>"
  proof (cases "d < 600")
    case True
    then show ?thesis unfolding F
      using elapse_not_due [of ?A "next_timer_id S" "now S + 600" sel "viewerApis S" d] by simp
  next
    case False
    then show ?thesis unfolding F
      using elapse_due [of ?A "next_timer_id S" "now S + 600" sel "viewerApis S" d]
      by (simp add: process_blank [OF assms(3)])
  qed
  then have "requests F = requests S \<and> runs F = runs S
       \<and> isLoading F = isLoading S \<and> error F = error S
       \<and> insights F = insights S \<and> recommendations F = recommendations S"
    by auto
  then show ?thesis using process_blank [OF assms(3)] by simp
qed

text \<open>Claim C9 at a selection of a space and a tab.\<close>

theorem blank_selection_noop_witness:
  "list_all is_space [CHR 0x20, CHR 0x09]
   \<and> processSelectionWithScreenshot ready (Some 7) [CHR 0x20, CHR 0x09] = ready
   \<and> requests (run_events sample_runtime (apiClient None) ready
        [TextSelect [CHR 0x20, CHR 0x09], Elapse 600]) = []
   \<and> recommendations (run_events sample_runtime (apiClient None) ready
        [TextSelect [CHR 0x20, CHR 0x09], Elapse 600]) = []
   \<and> isLoading (run_events sample_runtime (apiClient None) ready
        [TextSelect [CHR 0x20, CHR 0x09], Elapse 600]) = False"
proof -
  have h1: "list_all is_space [CHR 0x20, CHR 0x09]" by (simp add: is_space_def)
  have e1: "requests ready = []" by code_simp
  have e2: "recommendations ready = []" by code_simp
  have e3: "isLoading ready = False" by code_simp
  show ?thesis
    using h1
      blank_selection_noop [where rt = sample_runtime and client = "apiClient None"
        and history = ready_history and sel = "[CHR 0x20, CHR 0x09]" and d = 600
        and s = ready and apis = "Some 7", OF h1, folded ready_def]
    by (simp add: e1 e2 e3)
qed

subsection \<open>Completed and failed runs\<close>

text \<open>
  Claim C1 as stated (a completed run commits its result only when it is the latest run
  issued) fails: in the state \<open>overtaken\<close> run 1, issued after run 0, has committed its
  result; when the search of run 0 then resolves, its result replaces that of run 1.
\<close>

theorem stale_result_committed_counterexample:
  "at_index (runs overtaken) 0 = Some (AwaitSearch ''first'')
   \<and> at_index (runs overtaken) 1 = Some Finished
   \<and> requests overtaken = [''first'', ''second'']
   \<and> recommendations overtaken = [rec_B]
   \<and> recommendations (step sample_runtime (apiClient None) overtaken (SearchSettled 0 first_result))
       = [rec_A]
   \<and> recommendations (step sample_runtime (apiClient None) overtaken (SearchSettled 0 first_result))
       \<noteq> recommendations overtaken"
  by code_simp

text \<open>
  Claim C1, amended: the page keeps no generation counter. Every run whose search
  resolves commits its result, clears the loading flag and finishes, whichever runs were
  issued after it; the recommendations are those of the run that completed last.
\<close>

theorem completed_search_always_commits:
  assumes "at_index (runs s) i = Some (AwaitSearch sel)"
    and "extractAndSearch rt outcome = Inr recs"
  shows "search_settled rt s i outcome =
           s\<lparr> recommendations := recs, isLoading := False, runs := (runs s)[i := Finished] \<rparr>"
  using assms by (simp add: search_settled_def)

text \<open>Claim C1, amended, at run 0 of the state \<open>overtaken\<close>.\<close>

theorem completed_search_always_commits_witness:
  "at_index (runs overtaken) 0 = Some (AwaitSearch ''first'')
   \<and> extractAndSearch sample_runtime first_result = Inr [rec_A]
   \<and> recommendations (search_settled sample_runtime overtaken 0 first_result)
       = [rec_A]"
proof -
  have h1: "at_index (runs overtaken) 0 = Some (AwaitSearch ''first'')" by code_simp
  have h2: "extractAndSearch sample_runtime first_result = Inr [rec_A]"
    by (simp add: first_result_def extractAndSearch_def normalize_raw_def
        raw_recommendations_def recommendations_body_def)
  show ?thesis
    using h1 h2 completed_search_always_commits [OF h1 h2] by simp
qed

text \<open>
  Claim C10: when the screenshot capture or the search of a run fails, the failure sets
  the error and clears the loading flag and changes nothing else of the page's state; the
  recommendations stay as they were, and starting a run does not change them either.
\<close>

theorem failed_run_keeps_recommendations:
  "(at_index (runs s) i = Some (AwaitScreenshot sel) \<longrightarrow>
      page_state.truncate (screenshot_settled s i False)
        = (page_state.truncate s)\<lparr> isLoading := False, error := Some failure_message \<rparr>
      \<and> recommendations (screenshot_settled s i False) = recommendations s)
   \<and> (at_index (runs s) i = Some (AwaitSearch sel) \<and> extractAndSearch rt outcome = Inl e \<longrightarrow>
      page_state.truncate (search_settled rt s i outcome)
        = (page_state.truncate s)\<lparr> isLoading := False, error := Some failure_message \<rparr>
      \<and> recommendations (search_settled rt s i outcome) = recommendations s)
   \<and> recommendations (processSelectionWithScreenshot s apis sel) = recommendations s"
  by (simp add: screenshot_settled_def search_settled_def page_state.truncate_def process_frame)

text \<open>
  Claim C10 at a run whose screenshot is rejected, and at run 0 of the state \<open>overtaken\<close>
  when its search is answered with a response that is not ok.
\<close>

theorem failed_run_keeps_recommendations_witness:
  "at_index (runs awaiting_screenshot) 0 = Some (AwaitScreenshot ''first'')
   \<and> error (screenshot_settled awaiting_screenshot 0 False) = Some failure_message
   \<and> recommendations (screenshot_settled awaiting_screenshot 0 False) = []
   \<and> at_index (runs overtaken) 0 = Some (AwaitSearch ''first'')
   \<and> extractAndSearch sample_runtime bad_gateway
        = Inl (Error ''Extract and search failed: Bad Gateway'')
   \<and> error (search_settled sample_runtime overtaken 0 bad_gateway) = Some failure_message
   \<and> recommendations (search_settled sample_runtime overtaken 0 bad_gateway)
        = [rec_B]"
proof -
  have h1: "at_index (runs awaiting_screenshot) 0 = Some (AwaitScreenshot ''first'')" by code_simp
  have h2: "at_index (runs overtaken) 0 = Some (AwaitSearch ''first'')" by code_simp
  have h3: "extractAndSearch sample_runtime bad_gateway
        = Inl (Error ''Extract and search failed: Bad Gateway'')"
    by (simp add: bad_gateway_def extractAndSearch_def)
  have e1: "recommendations awaiting_screenshot = []" by code_simp
  have e2: "recommendations overtaken = [rec_B]" by code_simp
  have a: "page_state.truncate (screenshot_settled awaiting_screenshot 0 False)
        = (page_state.truncate awaiting_screenshot)\<lparr> isLoading := False, error := Some failure_message \<rparr>
      \<and> recommendations (screenshot_settled awaiting_screenshot 0 False) = recommendations awaiting_screenshot"
    using h1 failed_run_keeps_recommendations [where s = awaiting_screenshot and i = 0 and sel = "''first''"]
    by blast
  have b: "page_state.truncate (search_settled sample_runtime overtaken 0 bad_gateway)
        = (page_state.truncate overtaken)\<lparr> isLoading := False, error := Some failure_message \<rparr>
      \<and> recommendations (search_settled sample_runtime overtaken 0 bad_gateway) = recommendations overtaken"
    using h2 h3 failed_run_keeps_recommendations [where s = overtaken and i = 0 and sel = "''first''"
        and rt = sample_runtime and outcome = bad_gateway]
    by blast
  have c: "error (screenshot_settled awaiting_screenshot 0 False) = Some failure_message"
    using a by (simp add: page_state.truncate_def)
  have d: "error (search_settled sample_runtime overtaken 0 bad_gateway) = Some failure_message"
    using b by (simp add: page_state.truncate_def)
  show ?thesis using h1 h2 h3 a b c d e1 e2 by simp
qed

subsection \<open>Highlights\<close>

text \<open>
  Claim C8: with the viewer handle ready, selecting a recommendation calls \<open>goToLocation\<close>
  with its page number and sets the annotations to one highlight, on the page and the
  bounding box of that recommendation, in the colour \<open>#FBBF24\<close> at opacity 0.4; so
  selecting A and then B leaves only the highlight of B. Without the handle the selection
  changes nothing. In every state the page can reach there is at most one annotation.
\<close>

theorem jump_sets_single_highlight:
  "(viewerApis s = Some apis \<longrightarrow>
      handleJumpToPage s r =
        s\<lparr> viewer_calls := viewer_calls s @ [goToLocation apis (pageNumber r)],
           annotations := [\<lparr> ann_pageNumber = pageNumber r, ann_type = HIGHLIGHT,
                             ann_boundingBox = boundingBox r,
                             color = ''#FBBF24'', opacity = lit 0.4 \<rparr>] \<rparr>
      \<and> annotations (handleJumpToPage (handleJumpToPage s a) b)
          = [\<lparr> ann_pageNumber = pageNumber b, ann_type = HIGHLIGHT,
               ann_boundingBox = boundingBox b,
               color = ''#FBBF24'', opacity = lit 0.4 \<rparr>])
   \<and> (viewerApis s = None \<longrightarrow> handleJumpToPage s r = s)
   \<and> length (annotations (run_events rt client initial history)) \<le> 1"
  using reachable_one_highlight [of rt client history]
  by (simp add: handleJumpToPage_def newAnnotation_def)

text \<open>
  Claim C8 with the viewer ready, for two recommendations on different pages and boxes,
  and in the initial state, where the handle is not ready.
\<close>

theorem jump_sets_single_highlight_witness:
  "viewerApis ready = Some 7
   \<and> viewer_calls (handleJumpToPage ready rec_A) = [goToLocation 7 (Fin 2)]
   \<and> annotations (handleJumpToPage ready rec_A)
       = [\<lparr> ann_pageNumber = Fin 2, ann_type = HIGHLIGHT,
            ann_boundingBox = (Fin 1, Fin 2, Fin 3, Fin 4),
            color = ''#FBBF24'', opacity = lit 0.4 \<rparr>]
   \<and> annotations (handleJumpToPage (handleJumpToPage ready rec_A) rec_B)
       = [\<lparr> ann_pageNumber = Fin 5, ann_type = HIGHLIGHT,
            ann_boundingBox = (Fin 10, Fin 20, Fin 30, Fin 40),
            color = ''#FBBF24'', opacity = lit 0.4 \<rparr>]
   \<and> annotations (handleJumpToPage (handleJumpToPage ready rec_A) rec_B)
       \<noteq> annotations (handleJumpToPage ready rec_A)
   \<and> viewerApis initial = None
   \<and> handleJumpToPage initial rec_A = initial"
proof -
  have h1: "viewerApis ready = Some 7" by code_simp
  have h2: "viewerApis initial = None" by (simp add: initial_def)
  have e1: "viewer_calls ready = []" by code_simp
  have pA: "pageNumber rec_A = Fin 2" "boundingBox rec_A = (Fin 1, Fin 2, Fin 3, Fin 4)"
    by (simp_all add: rec_A_def sample_rec_def)
  have pB: "pageNumber rec_B = Fin 5" "boundingBox rec_B = (Fin 10, Fin 20, Fin 30, Fin 40)"
    by (simp_all add: rec_B_def sample_rec_def)
  have a: "handleJumpToPage ready rec_A =
        ready\<lparr> viewer_calls := viewer_calls ready @ [goToLocation 7 (pageNumber rec_A)],
           annotations := [\<lparr> ann_pageNumber = pageNumber rec_A, ann_type = HIGHLIGHT,
                             ann_boundingBox = boundingBox rec_A,
                             color = ''#FBBF24'', opacity = lit 0.4 \<rparr>] \<rparr>
      \<and> annotations (handleJumpToPage (handleJumpToPage ready rec_A) rec_B)
          = [\<lparr> ann_pageNumber = pageNumber rec_B, ann_type = HIGHLIGHT,
               ann_boundingBox = boundingBox rec_B,
               color = ''#FBBF24'', opacity = lit 0.4 \<rparr>]"
    using h1 jump_sets_single_highlight [where s = ready and apis = 7
        and r = rec_A and a = rec_A and b = rec_B]
    by blast
  have b: "handleJumpToPage initial rec_A = initial"
    using h2 jump_sets_single_highlight [where s = initial and r = rec_A]
    by blast
  have a1: "handleJumpToPage ready rec_A =
        ready\<lparr> viewer_calls := viewer_calls ready @ [goToLocation 7 (pageNumber rec_A)],
           annotations := [\<lparr> ann_pageNumber = pageNumber rec_A, ann_type = HIGHLIGHT,
                             ann_boundingBox = boundingBox rec_A,
                             color = ''#FBBF24'', opacity = lit 0.4 \<rparr>] \<rparr>"
    using a by blast
  have a2: "annotations (handleJumpToPage (handleJumpToPage ready rec_A) rec_B)
          = [\<lparr> ann_pageNumber = pageNumber rec_B, ann_type = HIGHLIGHT,
               ann_boundingBox = boundingBox rec_B,
               color = ''#FBBF24'', opacity = lit 0.4 \<rparr>]"
    using a by blast
  have c1: "viewer_calls (handleJumpToPage ready rec_A) = [goToLocation 7 (Fin 2)]"
    unfolding a1 by (simp add: e1 pA)
  have c2: "annotations (handleJumpToPage ready rec_A)
       = [\<lparr> ann_pageNumber = Fin 2, ann_type = HIGHLIGHT,
            ann_boundingBox = (Fin 1, Fin 2, Fin 3, Fin 4),
            color = ''#FBBF24'', opacity = lit 0.4 \<rparr>]"
    unfolding a1 by (simp add: pA)
  have c3: "annotations (handleJumpToPage (handleJumpToPage ready rec_A) rec_B)
       = [\<lparr> ann_pageNumber = Fin 5, ann_type = HIGHLIGHT,
            ann_boundingBox = (Fin 10, Fin 20, Fin 30, Fin 40),
            color = ''#FBBF24'', opacity = lit 0.4 \<rparr>]"
    using a2 unfolding pB .
  have c4: "annotations (handleJumpToPage (handleJumpToPage ready rec_A) rec_B)
       \<noteq> annotations (handleJumpToPage ready rec_A)"
    unfolding c2 c3 by simp
  show ?thesis using h1 h2 b c1 c2 c3 c4 by blast
qed

subsection \<open>Entering and leaving the viewer\<close>

lemma enter_viewer_resets:
  "currentView (handleDocumentSelect rt client s doc) = viewer"
  "recommendations (handleDocumentSelect rt client s doc) = []"
  "annotations (handleDocumentSelect rt client s doc) = []"
  "insights (handleDocumentSelect rt client s doc) = None"
  "error (handleDocumentSelect rt client s doc) = None"
  "viewerApis (handleDocumentSelect rt client s doc) = None"
  "currentView (handleOpenSinglePdf s file) = viewer"
  "recommendations (handleOpenSinglePdf s file) = []"
  "annotations (handleOpenSinglePdf s file) = []"
  "insights (handleOpenSinglePdf s file) = None"
  "error (handleOpenSinglePdf s file) = None"
  "viewerApis (handleOpenSinglePdf s file) = None"
  by (simp_all add: handleDocumentSelect_def handleOpenSinglePdf_def)

lemma back_handlers_clear_document:
  "document (handleBackToLibrary s) = None" "currentView (handleBackToLibrary s) = library"
  "document (handleBackToUpload s) = None" "currentView (handleBackToUpload s) = upload"
  by (simp_all add: handleBackToLibrary_def handleBackToUpload_def)

lemma library_button_keeps_document:
  "document (library_button_click s) = document s"
  "currentView (library_button_click s) = library"
  by (simp_all add: library_button_click_def)

text \<open>
  Claim C7 says that every transition that leaves the viewer clears the document. After
  a local file is opened, the header's Library button switches the view to the library
  and the document stays set. (\<open>handleBackToLibrary\<close> and \<open>handleBackToUpload\<close> do clear it,
  and both ways into the viewer reset the recommendations, annotations, insights, error
  and viewer handle.)
\<close>

theorem library_button_leaves_document:
  "currentView (run_events sample_runtime (apiClient None) initial
      [OpenSinglePdf (File ''a.pdf'')]) = viewer
   \<and> currentView (run_events sample_runtime (apiClient None) initial
      [OpenSinglePdf (File ''a.pdf''), LibraryButton]) = library
   \<and> document (run_events sample_runtime (apiClient None) initial
      [OpenSinglePdf (File ''a.pdf''), LibraryButton])
      = Some \<lparr> df_id = None, df_url = None, df_name = ''a.pdf'', df_file = Some (File ''a.pdf'') \<rparr>"
  by (simp add: run_events_def handleOpenSinglePdf_def library_button_click_def initial_def)

end
